theory Spec2Isabelle
  imports
    Main
    "HOL-Library.Word"
    "HOL-Library.Char_ord"
    "HOL-Library.List_Lexorder"
    "HOL-Library.AList"
begin

unbundle bit_operations_syntax

section \<open>Abstract syntax (internal/types)\<close>

text \<open>
  The expression tree of \<^verbatim>\<open>internal/types\<close>. Go's \<^verbatim>\<open>Expr\<close> is an interface, so a
  child may be the nil interface (the parser returns nil after a syntax error);
  \<open>NilExpr\<close> stands for it. \<^verbatim>\<open>int64\<close> is a 64-bit word read in two's complement,
  \<^verbatim>\<open>float64\<close> is its IEEE-754 bit pattern. The fields the parser never fills
  (\<^verbatim>\<open>baseNode.pos\<close>, \<^verbatim>\<open>IsIndented\<close>, \<^verbatim>\<open>IsAbsolute\<close>, \<^verbatim>\<open>Inherits\<close>, \<^verbatim>\<open>Pattern\<close>) and that the
  evaluator never reads are left out. A \<^verbatim>\<open>SelectExpr\<close> without default carries \<open>NilExpr\<close>.
\<close>

type_synonym int64 = "64 word"
type_synonym float64 = "64 word"

datatype BinaryOp =
  OpAdd | OpSub | OpMul | OpDiv | OpConcat | OpEq | OpNEq | OpLT | OpGT | OpLTE | OpGTE
  | OpAnd | OpOr | OpImpl | OpUpdate

datatype UnaryOp = OpNot | OpNeg

datatype Expr =
  NilExpr
  | IntExpr int64
  | FloatExpr float64
  | StringExpr string
  | BoolExpr bool
  | NullExpr
  | PathExpr string
  | IdentExpr string
  | ListExpr "Expr list"
  | AttrSetExpr bool "(string list \<times> Expr) list"
  | BinaryExpr Expr BinaryOp Expr
  | UnaryExpr UnaryOp Expr
  | IfExpr Expr Expr Expr
  | LetExpr "(string \<times> Expr) list" Expr
  | WithExpr Expr Expr
  | AssertExpr Expr Expr
  | FunctionExpr string Expr
  | ApplyExpr Expr Expr
  | SelectExpr Expr "string list" Expr
  | HasAttrExpr Expr "string list"

section \<open>Runtime values and the object graph (internal/value)\<close>

text \<open>
  \<^verbatim>\<open>*Attrs\<close> and \<^verbatim>\<open>*Env\<close> are pointers to mutable maps: an attribute set value is the
  address of its map in \<open>objs\<close>, an environment is the address of its frame in \<open>envs\<close>.
  Allocation appends to the store, so an address is an index and a fresh address is the
  length of the store. A Go map is an association list that is only changed by
  \<open>AList.update\<close>; \<^verbatim>\<open>Keys()\<close> sorts, so the order of the list is never observed there.
  \<^verbatim>\<open>*List\<close> is never mutated after \<^verbatim>\<open>NewList\<close> copied its elements, and no pointer is ever
  compared, so a list is held by value. A \<^verbatim>\<open>*Builtin\<close> is identified by its name: its
  closure is the one \<^verbatim>\<open>registerBuiltin\<close> made for that name.
\<close>

datatype Value =
  VNull
  | VBool bool
  | VInt int64
  | VFloat float64
  | VString string
  | VPath string
  | VList "Value list"
  | VAttrs nat
  | VFunction string Expr nat
  | VBuiltin string

datatype Type =
  TypeNull | TypeBool | TypeInt | TypeFloat | TypeString | TypePath | TypeList | TypeAttrs
  | TypeFunction | TypeBuiltin

fun typeOf :: "Value \<Rightarrow> Type" where
  "typeOf VNull = TypeNull"
| "typeOf (VBool _) = TypeBool"
| "typeOf (VInt _) = TypeInt"
| "typeOf (VFloat _) = TypeFloat"
| "typeOf (VString _) = TypeString"
| "typeOf (VPath _) = TypePath"
| "typeOf (VList _) = TypeList"
| "typeOf (VAttrs _) = TypeAttrs"
| "typeOf (VFunction _ _ _) = TypeFunction"
| "typeOf (VBuiltin _) = TypeBuiltin"

record Env =
  bindings :: "(string \<times> Value) list"
  parent :: "nat option"

record State =
  envs :: "Env list"
  objs :: "(string \<times> Value) list list"

text \<open>
  Every Go \<^verbatim>\<open>error\<close> the evaluator builds, one constructor per \<^verbatim>\<open>fmt.Errorf\<close> or
  \<^verbatim>\<open>errors.New\<close> site, with the data the message is formatted from. \<open>OutOfFuel\<close> is not
  a Go error: it is the model's value for an evaluation that has not returned within the
  recursion depth it was given. \<open>IndexOutOfRange\<close> is the run-time panic of an index
  expression on a slice that is too short.
\<close>

datatype EvalError =
  OutOfFuel
  | IndexOutOfRange
  | UnknownExpressionType
  | UndefinedVariable string
  | UnknownBinaryOperator
  | NotRequiresBool Type
  | NegRequiresNumeric Type
  | AndRequiresBool Type
  | OrRequiresBool Type
  | ImplRequiresBool Type
  | CannotAdd Type
  | CannotSubtract Type
  | CannotMultiply Type
  | DivisionByZero
  | CannotDivide Type
  | ConcatRequiresLists Type Type
  | CannotCompare Type
  | UpdateRequiresAttrs Type Type
  | InvalidFunctionBody
  | NonFunctionApply Type
  | CannotSelect string Type
  | AttrNotFound string
  | UnexpectedEndOfPath
  | IfConditionNotBool Type
  | LetBindingError string EvalError
  | WithRequiresAttrs Type
  | AssertConditionNotBool Type
  | AssertionFailed
  | EmptyAttrPath
  | AttrPathConflict string
  | Arity string nat nat
  | BuiltinTypeError string Type
  | HeadOfEmptyList
  | TailOfEmptyList
  | InvalidDerivation string
  | UnknownBuiltin string

section \<open>What the evaluator takes from the Go runtime\<close>

text \<open>
  The evaluator is linked against Go's floating-point arithmetic, \<^verbatim>\<open>strconv\<close>, \<^verbatim>\<open>fmt\<close>,
  \<^verbatim>\<open>path/filepath\<close> and \<^verbatim>\<open>crypto/sha256\<close>. None of them is code of this repository; they
  are parameters of the model, together with the evaluator's own \<^verbatim>\<open>baseDir\<close> field.
  Comparing a \<^verbatim>\<open>float64\<close> with \<^verbatim>\<open>==\<close> is decided by the bit pattern alone and is written
  out below.
\<close>

record Evaluator =
  baseDir :: string
  floatAdd :: "float64 \<Rightarrow> float64 \<Rightarrow> float64"
  floatSub :: "float64 \<Rightarrow> float64 \<Rightarrow> float64"
  floatMul :: "float64 \<Rightarrow> float64 \<Rightarrow> float64"
  floatDiv :: "float64 \<Rightarrow> float64 \<Rightarrow> float64"
  floatNeg :: "float64 \<Rightarrow> float64"
  floatLess :: "float64 \<Rightarrow> float64 \<Rightarrow> bool"
  floatOfInt :: "int64 \<Rightarrow> float64"
  formatFloatG :: "float64 \<Rightarrow> string"
  formatFloatF :: "float64 \<Rightarrow> string"
  filepathIsAbs :: "string \<Rightarrow> bool"
  filepathJoin :: "string \<Rightarrow> string \<Rightarrow> string"
  sha256Hex :: "string \<Rightarrow> string"

definition floatIsNaN :: "float64 \<Rightarrow> bool" where
  "floatIsNaN w \<longleftrightarrow>
     (w AND 0x7FF0000000000000 = 0x7FF0000000000000 \<and> w AND 0x000FFFFFFFFFFFFF \<noteq> 0)"

definition floatIsZero :: "float64 \<Rightarrow> bool" where
  "floatIsZero w \<longleftrightarrow> w AND 0x7FFFFFFFFFFFFFFF = 0"

definition floatEq :: "float64 \<Rightarrow> float64 \<Rightarrow> bool" where
  "floatEq a b \<longleftrightarrow>
     \<not> floatIsNaN a \<and> \<not> floatIsNaN b \<and> (a = b \<or> (floatIsZero a \<and> floatIsZero b))"

section \<open>Arithmetic operators (pkg/eval/operators.go)\<close>

definition evalAdd :: "Evaluator \<Rightarrow> Value \<Rightarrow> Value \<Rightarrow> EvalError + Value" where
  "evalAdd E left right =
     (case left of
        VInt l \<Rightarrow>
          (case right of
             VInt r \<Rightarrow> Inr (VInt (l + r))
           | VFloat r \<Rightarrow> Inr (VFloat (floatAdd E (floatOfInt E l) r))
           | _ \<Rightarrow> Inl (CannotAdd (typeOf right)))
      | VFloat l \<Rightarrow>
          (case right of
             VInt r \<Rightarrow> Inr (VFloat (floatAdd E l (floatOfInt E r)))
           | VFloat r \<Rightarrow> Inr (VFloat (floatAdd E l r))
           | _ \<Rightarrow> Inl (CannotAdd (typeOf right)))
      | VString l \<Rightarrow>
          (case right of
             VString r \<Rightarrow> Inr (VString (l @ r))
           | _ \<Rightarrow> Inl (CannotAdd (typeOf right)))
      | _ \<Rightarrow> Inl (CannotAdd (typeOf left)))"

definition evalSub :: "Evaluator \<Rightarrow> Value \<Rightarrow> Value \<Rightarrow> EvalError + Value" where
  "evalSub E left right =
     (case left of
        VInt l \<Rightarrow>
          (case right of
             VInt r \<Rightarrow> Inr (VInt (l - r))
           | VFloat r \<Rightarrow> Inr (VFloat (floatSub E (floatOfInt E l) r))
           | _ \<Rightarrow> Inl (CannotSubtract (typeOf right)))
      | VFloat l \<Rightarrow>
          (case right of
             VInt r \<Rightarrow> Inr (VFloat (floatSub E l (floatOfInt E r)))
           | VFloat r \<Rightarrow> Inr (VFloat (floatSub E l r))
           | _ \<Rightarrow> Inl (CannotSubtract (typeOf right)))
      | _ \<Rightarrow> Inl (CannotSubtract (typeOf left)))"

definition evalMul :: "Evaluator \<Rightarrow> Value \<Rightarrow> Value \<Rightarrow> EvalError + Value" where
  "evalMul E left right =
     (case left of
        VInt l \<Rightarrow>
          (case right of
             VInt r \<Rightarrow> Inr (VInt (l * r))
           | VFloat r \<Rightarrow> Inr (VFloat (floatMul E (floatOfInt E l) r))
           | _ \<Rightarrow> Inl (CannotMultiply (typeOf right)))
      | VFloat l \<Rightarrow>
          (case right of
             VInt r \<Rightarrow> Inr (VFloat (floatMul E l (floatOfInt E r)))
           | VFloat r \<Rightarrow> Inr (VFloat (floatMul E l r))
           | _ \<Rightarrow> Inl (CannotMultiply (typeOf right)))
      | _ \<Rightarrow> Inl (CannotMultiply (typeOf left)))"

text \<open>
  \<^verbatim>\<open>evalDiv\<close> first looks at the divisor alone (\<^verbatim>\<open>r == 0\<close> on an \<^verbatim>\<open>Int\<close> or on a \<^verbatim>\<open>Float\<close>,
  the latter true of both signed zeros and false of NaN), whatever the dividend is, and
  only then dispatches on the dividend.
\<close>

definition evalDiv :: "Evaluator \<Rightarrow> Value \<Rightarrow> Value \<Rightarrow> EvalError + Value" where
  "evalDiv E left right =
     (if (case right of VInt r \<Rightarrow> r = 0 | VFloat r \<Rightarrow> floatEq r 0 | _ \<Rightarrow> False)
      then Inl DivisionByZero
      else
        (case left of
           VInt l \<Rightarrow>
             (case right of
                VInt r \<Rightarrow> Inr (VFloat (floatDiv E (floatOfInt E l) (floatOfInt E r)))
              | VFloat r \<Rightarrow> Inr (VFloat (floatDiv E (floatOfInt E l) r))
              | _ \<Rightarrow> Inl (CannotDivide (typeOf right)))
         | VFloat l \<Rightarrow>
             (case right of
                VInt r \<Rightarrow> Inr (VFloat (floatDiv E l (floatOfInt E r)))
              | VFloat r \<Rightarrow> Inr (VFloat (floatDiv E l r))
              | _ \<Rightarrow> Inl (CannotDivide (typeOf right)))
         | _ \<Rightarrow> Inl (CannotDivide (typeOf left))))"

text \<open>Vocabulary of the division claim: a numeric operand, and a divisor that is zero.\<close>

fun isNumeric :: "Value \<Rightarrow> bool" where
  "isNumeric (VInt _) = True"
| "isNumeric (VFloat _) = True"
| "isNumeric _ = False"

fun divisorIsZero :: "Value \<Rightarrow> bool" where
  "divisorIsZero (VInt r) = (sint r = 0)"
| "divisorIsZero (VFloat r) = (r = 0 \<or> r = 0x8000000000000000)"
| "divisorIsZero _ = False"

section \<open>Environments (the \<^verbatim>\<open>Env\<close> type of package value)\<close>

text \<open>
  \<^verbatim>\<open>NewEnv\<close> and \<^verbatim>\<open>Extend\<close> allocate a frame with an empty map; \<^verbatim>\<open>Set\<close> writes into the
  frame it is called on; \<^verbatim>\<open>Get\<close> scans the frame and then its parents. A parent is
  always allocated before its child, so its address is smaller: \<open>envGet\<close> follows the
  parent link only downwards, which makes it total on every store.
\<close>

definition NewEnv :: "State \<Rightarrow> nat \<times> State" where
  "NewEnv s = (length (envs s), s\<lparr>envs := envs s @ [\<lparr>bindings = [], parent = None\<rparr>]\<rparr>)"

definition Extend :: "nat \<Rightarrow> State \<Rightarrow> nat \<times> State" where
  "Extend e s = (length (envs s), s\<lparr>envs := envs s @ [\<lparr>bindings = [], parent = Some e\<rparr>]\<rparr>)"

definition envSet :: "nat \<Rightarrow> string \<Rightarrow> Value \<Rightarrow> State \<Rightarrow> State" where
  "envSet e name v s =
     s\<lparr>envs := (envs s)[e := (envs s ! e)\<lparr>bindings := AList.update name v (bindings (envs s ! e))\<rparr>]\<rparr>"

function envGet :: "State \<Rightarrow> nat \<Rightarrow> string \<Rightarrow> Value option" where
  "envGet s e name =
     (if e < length (envs s) then
        (case map_of (bindings (envs s ! e)) name of
           Some v \<Rightarrow> Some v
         | None \<Rightarrow>
             (case parent (envs s ! e) of
                None \<Rightarrow> None
              | Some p \<Rightarrow> if p < e then envGet s p name else None))
      else None)"
  by pat_completeness auto
termination
  by (relation "measure (\<lambda>(s, e, name). e)") auto

declare envGet.simps [simp del]

section \<open>Attribute sets (the \<^verbatim>\<open>Attrs\<close> type of package value)\<close>

definition NewAttrs :: "State \<Rightarrow> nat \<times> State" where
  "NewAttrs s = (length (objs s), s\<lparr>objs := objs s @ [[]]\<rparr>)"

definition attrsOf :: "State \<Rightarrow> nat \<Rightarrow> (string \<times> Value) list" where
  "attrsOf s a = (if a < length (objs s) then objs s ! a else [])"

definition attrsGet :: "State \<Rightarrow> nat \<Rightarrow> string \<Rightarrow> Value option" where
  "attrsGet s a key = map_of (attrsOf s a) key"

definition attrsSet :: "nat \<Rightarrow> string \<Rightarrow> Value \<Rightarrow> State \<Rightarrow> State" where
  "attrsSet a key v s = s\<lparr>objs := (objs s)[a := AList.update key v (attrsOf s a)]\<rparr>"

definition attrsKeys :: "State \<Rightarrow> nat \<Rightarrow> string list" where
  "attrsKeys s a = sort (map fst (attrsOf s a))"

definition attrsLen :: "State \<Rightarrow> nat \<Rightarrow> nat" where
  "attrsLen s a = length (attrsOf s a)"

section \<open>Structural equality (the \<^verbatim>\<open>Equals\<close> methods)\<close>

text \<open>
  \<^verbatim>\<open>Equals\<close> recurses through lists and, by way of the store, through attribute sets; on
  a cyclic object graph the Go code does not return. The depth is bounded by a fuel here
  and \<open>None\<close> is the answer of a comparison that ran out of it. \<^verbatim>\<open>Attrs.Equals\<close> ranges
  over a Go map, in no specified order; the model takes the entries in the order of the
  association list. Both loops leave at the first difference.
\<close>

fun listEquals :: "(Value \<Rightarrow> Value \<Rightarrow> bool option) \<Rightarrow> Value list \<Rightarrow> Value list \<Rightarrow> bool option" where
  "listEquals eq [] ys = Some True"
| "listEquals eq (x # xs) [] = Some False"
| "listEquals eq (x # xs) (y # ys) =
     (case eq x y of
        None \<Rightarrow> None
      | Some b \<Rightarrow> if b then listEquals eq xs ys else Some False)"

fun attrsEquals ::
  "(Value \<Rightarrow> Value \<Rightarrow> bool option) \<Rightarrow> (string \<times> Value) list \<Rightarrow> (string \<times> Value) list \<Rightarrow> bool option"
where
  "attrsEquals eq [] other = Some True"
| "attrsEquals eq ((k, v) # rest) other =
     (case map_of other k of
        None \<Rightarrow> Some False
      | Some otherV \<Rightarrow>
          (case eq v otherV of
             None \<Rightarrow> None
           | Some b \<Rightarrow> if b then attrsEquals eq rest other else Some False))"

definition EqualsStep ::
  "(Value \<Rightarrow> Value \<Rightarrow> bool option) \<Rightarrow> State \<Rightarrow> Value \<Rightarrow> Value \<Rightarrow> bool option"
where
  "EqualsStep eq s a b =
     (case a of
        VNull \<Rightarrow> Some (b = VNull)
      | VBool x \<Rightarrow> Some (b = VBool x)
      | VInt x \<Rightarrow> Some (b = VInt x)
      | VFloat x \<Rightarrow> Some (case b of VFloat y \<Rightarrow> floatEq x y | _ \<Rightarrow> False)
      | VString x \<Rightarrow> Some (b = VString x)
      | VPath x \<Rightarrow> Some (b = VPath x)
      | VList xs \<Rightarrow>
          (case b of
             VList ys \<Rightarrow> if length xs \<noteq> length ys then Some False else listEquals eq xs ys
           | _ \<Rightarrow> Some False)
      | VAttrs x \<Rightarrow>
          (case b of
             VAttrs y \<Rightarrow>
               if attrsLen s x \<noteq> attrsLen s y then Some False
               else attrsEquals eq (attrsOf s x) (attrsOf s y)
           | _ \<Rightarrow> Some False)
      | VFunction _ _ _ \<Rightarrow> Some False
      | VBuiltin x \<Rightarrow> Some (b = VBuiltin x))"

primrec Equals :: "nat \<Rightarrow> State \<Rightarrow> Value \<Rightarrow> Value \<Rightarrow> bool option" where
  "Equals 0 s = (\<lambda>a b. None)"
| "Equals (Suc n) s = EqualsStep (Equals n s) s"

definition equalsValue :: "nat \<Rightarrow> State \<Rightarrow> Value \<Rightarrow> Value \<Rightarrow> EvalError + bool" where
  "equalsValue n s a b = (case Equals n s a b of None \<Rightarrow> Inl OutOfFuel | Some r \<Rightarrow> Inr r)"

section \<open>Concatenation, comparison and update (pkg/eval/operators.go)\<close>

definition evalConcat :: "Value \<Rightarrow> Value \<Rightarrow> EvalError + Value" where
  "evalConcat left right =
     (case left of
        VList l \<Rightarrow>
          (case right of
             VList r \<Rightarrow> Inr (VList (l @ r))
           | _ \<Rightarrow> Inl (ConcatRequiresLists (typeOf left) (typeOf right)))
      | _ \<Rightarrow> Inl (ConcatRequiresLists (typeOf left) (typeOf right)))"

definition evalLess :: "Evaluator \<Rightarrow> Value \<Rightarrow> Value \<Rightarrow> EvalError + Value" where
  "evalLess E left right =
     (case left of
        VInt l \<Rightarrow>
          (case right of
             VInt r \<Rightarrow> Inr (VBool (sint l < sint r))
           | VFloat r \<Rightarrow> Inr (VBool (floatLess E (floatOfInt E l) r))
           | _ \<Rightarrow> Inl (CannotCompare (typeOf right)))
      | VFloat l \<Rightarrow>
          (case right of
             VInt r \<Rightarrow> Inr (VBool (floatLess E l (floatOfInt E r)))
           | VFloat r \<Rightarrow> Inr (VBool (floatLess E l r))
           | _ \<Rightarrow> Inl (CannotCompare (typeOf right)))
      | VString l \<Rightarrow>
          (case right of
             VString r \<Rightarrow> Inr (VBool (l < r))
           | _ \<Rightarrow> Inl (CannotCompare (typeOf right)))
      | _ \<Rightarrow> Inl (CannotCompare (typeOf left)))"

definition evalGreater :: "Evaluator \<Rightarrow> Value \<Rightarrow> Value \<Rightarrow> EvalError + Value" where
  "evalGreater E left right = evalLess E right left"

definition evalLessEq :: "Evaluator \<Rightarrow> nat \<Rightarrow> State \<Rightarrow> Value \<Rightarrow> Value \<Rightarrow> EvalError + Value" where
  "evalLessEq E n s left right =
     (case evalLess E left right of
        Inl err \<Rightarrow> Inl err
      | Inr isLess \<Rightarrow>
          if isLess = VBool True then Inr (VBool True)
          else (case equalsValue n s left right of Inl err \<Rightarrow> Inl err | Inr b \<Rightarrow> Inr (VBool b)))"

definition evalGreaterEq :: "Evaluator \<Rightarrow> nat \<Rightarrow> State \<Rightarrow> Value \<Rightarrow> Value \<Rightarrow> EvalError + Value" where
  "evalGreaterEq E n s left right =
     (case evalGreater E left right of
        Inl err \<Rightarrow> Inl err
      | Inr isGreater \<Rightarrow>
          if isGreater = VBool True then Inr (VBool True)
          else (case equalsValue n s left right of Inl err \<Rightarrow> Inl err | Inr b \<Rightarrow> Inr (VBool b)))"

text \<open>
  \<^verbatim>\<open>evalUpdate\<close> allocates the result with \<^verbatim>\<open>NewAttrs\<close> and copies into it, first every key
  of the left operand, then every key of the right one; the key lists are the sorted
  \<^verbatim>\<open>Keys()\<close> taken before each loop. \<open>copyAttrs\<close> is one such loop: \<^verbatim>\<open>Get\<close> on the source,
  \<^verbatim>\<open>Set\<close> on the destination (the keys are keys of the source, so \<^verbatim>\<open>Get\<close> finds each).
\<close>

definition copyAttrs :: "nat \<Rightarrow> nat \<Rightarrow> string list \<Rightarrow> State \<Rightarrow> State" where
  "copyAttrs src dst keys s =
     fold (\<lambda>k st. case attrsGet st src k of Some v \<Rightarrow> attrsSet dst k v st | None \<Rightarrow> st) keys s"

definition evalUpdate :: "Value \<Rightarrow> Value \<Rightarrow> State \<Rightarrow> EvalError + Value \<times> State" where
  "evalUpdate left right s =
     (case left of
        VAttrs lAttrs \<Rightarrow>
          (case right of
             VAttrs rAttrs \<Rightarrow>
               (let (result, s1) = NewAttrs s;
                    s2 = copyAttrs lAttrs result (attrsKeys s1 lAttrs) s1;
                    s3 = copyAttrs rAttrs result (attrsKeys s2 rAttrs) s2
                in Inr (VAttrs result, s3))
           | _ \<Rightarrow> Inl (UpdateRequiresAttrs (typeOf left) (typeOf right)))
      | _ \<Rightarrow> Inl (UpdateRequiresAttrs (typeOf left) (typeOf right)))"

section \<open>Derivations (package derivation)\<close>

text \<open>
  The \<^verbatim>\<open>Derivation\<close> struct and the methods of \<^verbatim>\<open>DerivationBuilder\<close>, which wraps a pointer
  to one. The three Go maps are association lists changed by \<open>AList.update\<close>; every loop
  over them that builds the hash goes through the sorted keys.
\<close>

record Derivation =
  Name :: string
  Builder :: string
  Args :: "string list"
  Env :: "(string \<times> string) list"
  Outputs :: "(string \<times> string) list"
  InputDrvs :: "(string \<times> string list) list"
  InputSrcs :: "string list"
  System :: string
  Hash :: string
  StorePath :: string

definition NewDerivation :: "string \<Rightarrow> Derivation" where
  "NewDerivation name =
     \<lparr>Name = name, Builder = [], Args = [], Env = [], Outputs = [], InputDrvs = [],
      InputSrcs = [], System = ''x86_64-linux'', Hash = [], StorePath = []\<rparr>"

definition SetBuilder :: "string \<Rightarrow> Derivation \<Rightarrow> Derivation" where
  "SetBuilder builder drv = drv\<lparr>Builder := builder\<rparr>"

definition SetArgs :: "string list \<Rightarrow> Derivation \<Rightarrow> Derivation" where
  "SetArgs args drv = drv\<lparr>Args := args\<rparr>"

definition SetSystem :: "string \<Rightarrow> Derivation \<Rightarrow> Derivation" where
  "SetSystem system drv = drv\<lparr>System := system\<rparr>"

definition AddEnv :: "string \<Rightarrow> string \<Rightarrow> Derivation \<Rightarrow> Derivation" where
  "AddEnv key val drv = drv\<lparr>Env := AList.update key val (Env drv)\<rparr>"

definition AddOutput :: "string \<Rightarrow> string \<Rightarrow> Derivation \<Rightarrow> Derivation" where
  "AddOutput name path drv = drv\<lparr>Outputs := AList.update name path (Outputs drv)\<rparr>"

definition AddInputDrv :: "string \<Rightarrow> string list \<Rightarrow> Derivation \<Rightarrow> Derivation" where
  "AddInputDrv path outs drv = drv\<lparr>InputDrvs := AList.update path outs (InputDrvs drv)\<rparr>"

definition AddInputSrc :: "string \<Rightarrow> Derivation \<Rightarrow> Derivation" where
  "AddInputSrc path drv = drv\<lparr>InputSrcs := InputSrcs drv @ [path]\<rparr>"

text \<open>\<^verbatim>\<open>strings.Join\<close>.\<close>

fun joinStrings :: "string \<Rightarrow> string list \<Rightarrow> string" where
  "joinStrings sep [] = []"
| "joinStrings sep [x] = x"
| "joinStrings sep (x # y # ys) = x @ sep @ joinStrings sep (y # ys)"

definition lookupOr :: "'b \<Rightarrow> ('a \<times> 'b) list \<Rightarrow> 'a \<Rightarrow> 'b" where
  "lookupOr d m k = (case map_of m k of Some v \<Rightarrow> v | None \<Rightarrow> d)"

text \<open>
  \<open>hashParts\<close> is the slice \<^verbatim>\<open>parts\<close> of \<^verbatim>\<open>computeHash\<close> and \<open>hashContent\<close> the string
  that is hashed. \<^verbatim>\<open>computeHash\<close> sorts each output list of \<^verbatim>\<open>InputDrvs\<close> in place, which
  the caller's derivation sees: \<open>sortInputDrvs\<close> is that effect.
\<close>

definition hashParts :: "Derivation \<Rightarrow> string list" where
  "hashParts drv =
     [''name='' @ Name drv,
      ''builder='' @ Builder drv,
      ''args='' @ joinStrings '','' (Args drv),
      ''system='' @ System drv]
     @ map (\<lambda>k. ''env.'' @ k @ ''='' @ lookupOr [] (Env drv) k) (sort (map fst (Env drv)))
     @ map (\<lambda>k. ''inputDrv.'' @ k @ ''='' @ joinStrings '','' (sort (lookupOr [] (InputDrvs drv) k)))
         (sort (map fst (InputDrvs drv)))
     @ map (\<lambda>src. ''inputSrc='' @ src) (sort (InputSrcs drv))"

definition hashContent :: "Derivation \<Rightarrow> string" where
  "hashContent drv = joinStrings [CHR 0x0A] (hashParts drv)"

definition sortInputDrvs :: "Derivation \<Rightarrow> Derivation" where
  "sortInputDrvs drv = drv\<lparr>InputDrvs := map (\<lambda>(k, outs). (k, sort outs)) (InputDrvs drv)\<rparr>"

definition computeHash :: "Evaluator \<Rightarrow> Derivation \<Rightarrow> string" where
  "computeHash E drv = take 32 (sha256Hex E (hashContent drv))"

definition computeStorePath :: "Derivation \<Rightarrow> string" where
  "computeStorePath drv = ''/nix/store/'' @ Hash drv @ ''-'' @ Name drv"

definition Build :: "Evaluator \<Rightarrow> Derivation \<Rightarrow> Derivation" where
  "Build E drv =
     (let d1 = (if Outputs drv = [] then AddOutput ''out'' [] drv else drv);
          d2 = AddEnv ''pname'' (Name d1) d1;
          d3 = (sortInputDrvs d2)\<lparr>Hash := computeHash E d2\<rparr>;
          d4 = d3\<lparr>StorePath := computeStorePath d3\<rparr>
      in d4\<lparr>Outputs :=
              map (\<lambda>(name, path). (name, if path = [] then filepathJoin E (StorePath d4) name else path))
                (Outputs d4)\<rparr>)"

text \<open>
  \<^verbatim>\<open>ToAttrs\<close> allocates the derivation's attribute set, then the set of outputs, and
  flattens the outputs into the first. \<^verbatim>\<open>FromAttrs\<close> reads an attribute set: an \<^verbatim>\<open>args\<close>
  element that is not a string leaves its slot of the fresh \<^verbatim>\<open>[]string\<close> empty.
\<close>

definition ToAttrs :: "Derivation \<Rightarrow> State \<Rightarrow> Value \<times> State" where
  "ToAttrs d s =
     (let (attrs, s1) = NewAttrs s;
          s2 = attrsSet attrs ''name'' (VString (Name d)) s1;
          s3 = attrsSet attrs ''builder'' (VString (Builder d)) s2;
          s4 = attrsSet attrs ''system'' (VString (System d)) s3;
          s5 = attrsSet attrs ''drvPath'' (VString (StorePath d @ ''.drv'')) s4;
          s6 = attrsSet attrs ''args'' (VList (map VString (Args d))) s5;
          (outAttrs, s7) = NewAttrs s6;
          s8 = fold (\<lambda>(name, path). attrsSet outAttrs name (VString path)) (Outputs d) s7;
          s9 = attrsSet attrs ''outputs'' (VAttrs outAttrs) s8;
          s10 = fold (\<lambda>(name, path). attrsSet attrs name (VString path)) (Outputs d) s9
      in (VAttrs attrs, s10))"

definition argString :: "Value \<Rightarrow> string" where
  "argString arg = (case arg of VString argStr \<Rightarrow> argStr | _ \<Rightarrow> [])"

definition reservedKey :: "string \<Rightarrow> bool" where
  "reservedKey key \<longleftrightarrow>
     key = ''name'' \<or> key = ''builder'' \<or> key = ''system'' \<or> key = ''args'' \<or> key = ''outputs''"

definition addEnvFrom :: "State \<Rightarrow> nat \<Rightarrow> string \<Rightarrow> Derivation \<Rightarrow> Derivation" where
  "addEnvFrom s attrs key drv =
     (if reservedKey key then drv
      else (case attrsGet s attrs key of
              Some (VString strVal) \<Rightarrow> AddEnv key strVal drv
            | _ \<Rightarrow> drv))"

definition FromAttrs :: "Evaluator \<Rightarrow> State \<Rightarrow> nat \<Rightarrow> string + Derivation" where
  "FromAttrs E s attrs =
     (case attrsGet s attrs ''name'' of
        None \<Rightarrow> Inl ''derivation missing required 'name' attribute''
      | Some nameVal \<Rightarrow>
          (case nameVal of
             VString nameStr \<Rightarrow>
               (case attrsGet s attrs ''builder'' of
                  None \<Rightarrow> Inl ''derivation missing required 'builder' attribute''
                | Some builderVal \<Rightarrow>
                    (case builderVal of
                       VString builderStr \<Rightarrow>
                         (let db0 = SetBuilder builderStr (NewDerivation nameStr);
                              db1 = (case attrsGet s attrs ''system'' of
                                       Some (VString systemStr) \<Rightarrow> SetSystem systemStr db0
                                     | _ \<Rightarrow> db0);
                              db2 = (case attrsGet s attrs ''args'' of
                                       Some (VList argsList) \<Rightarrow> SetArgs (map argString argsList) db1
                                     | _ \<Rightarrow> db1);
                              db3 = fold (addEnvFrom s attrs) (attrsKeys s attrs) db2
                          in Inr (Build E db3))
                     | _ \<Rightarrow> Inl ''derivation 'builder' must be a string''))
           | _ \<Rightarrow> Inl ''derivation 'name' must be a string''))"

section \<open>Built-in functions (pkg/eval/builtins.go)\<close>

text \<open>
  Each implementation takes the argument slice. It indexes the slice without a check
  (\<^verbatim>\<open>args[0]\<close>, \<^verbatim>\<open>args[1]\<close>): on a shorter slice Go panics, which is the
  outcome \<open>IndexOutOfRange\<close>. \<^verbatim>\<open>strconv.FormatInt\<close> and the \<^verbatim>\<open>%d\<close> verb print an \<^verbatim>\<open>int64\<close> in decimal.
\<close>

type_synonym BuiltinResult = "EvalError + Value \<times> State"

fun digitChar :: "nat \<Rightarrow> char" where
  "digitChar n = char_of (48 + n mod 10)"

fun natString :: "nat \<Rightarrow> string" where
  "natString n = (if n < 10 then [digitChar n] else natString (n div 10) @ [digitChar n])"

declare natString.simps [simp del]

definition formatInt :: "int64 \<Rightarrow> string" where
  "formatInt i = (if sint i < 0 then ''-'' @ natString (nat (- sint i)) else natString (nat (sint i)))"

definition builtinIsNull :: "Value list \<Rightarrow> State \<Rightarrow> BuiltinResult" where
  "builtinIsNull args s =
     (case args of [] \<Rightarrow> Inl IndexOutOfRange | a0 # _ \<Rightarrow> Inr (VBool (typeOf a0 = TypeNull), s))"

definition builtinIsBool :: "Value list \<Rightarrow> State \<Rightarrow> BuiltinResult" where
  "builtinIsBool args s =
     (case args of [] \<Rightarrow> Inl IndexOutOfRange | a0 # _ \<Rightarrow> Inr (VBool (typeOf a0 = TypeBool), s))"

definition builtinIsInt :: "Value list \<Rightarrow> State \<Rightarrow> BuiltinResult" where
  "builtinIsInt args s =
     (case args of [] \<Rightarrow> Inl IndexOutOfRange | a0 # _ \<Rightarrow> Inr (VBool (typeOf a0 = TypeInt), s))"

definition builtinIsFloat :: "Value list \<Rightarrow> State \<Rightarrow> BuiltinResult" where
  "builtinIsFloat args s =
     (case args of [] \<Rightarrow> Inl IndexOutOfRange | a0 # _ \<Rightarrow> Inr (VBool (typeOf a0 = TypeFloat), s))"

definition builtinIsString :: "Value list \<Rightarrow> State \<Rightarrow> BuiltinResult" where
  "builtinIsString args s =
     (case args of [] \<Rightarrow> Inl IndexOutOfRange | a0 # _ \<Rightarrow> Inr (VBool (typeOf a0 = TypeString), s))"

definition builtinIsList :: "Value list \<Rightarrow> State \<Rightarrow> BuiltinResult" where
  "builtinIsList args s =
     (case args of [] \<Rightarrow> Inl IndexOutOfRange | a0 # _ \<Rightarrow> Inr (VBool (typeOf a0 = TypeList), s))"

definition builtinIsAttrs :: "Value list \<Rightarrow> State \<Rightarrow> BuiltinResult" where
  "builtinIsAttrs args s =
     (case args of [] \<Rightarrow> Inl IndexOutOfRange | a0 # _ \<Rightarrow> Inr (VBool (typeOf a0 = TypeAttrs), s))"

definition builtinIsFunction :: "Value list \<Rightarrow> State \<Rightarrow> BuiltinResult" where
  "builtinIsFunction args s =
     (case args of
        [] \<Rightarrow> Inl IndexOutOfRange
      | a0 # _ \<Rightarrow> Inr (VBool (typeOf a0 = TypeFunction \<or> typeOf a0 = TypeBuiltin), s))"

definition builtinToString :: "Evaluator \<Rightarrow> Value list \<Rightarrow> State \<Rightarrow> BuiltinResult" where
  "builtinToString E args s =
     (case args of
        [] \<Rightarrow> Inl IndexOutOfRange
      | a0 # _ \<Rightarrow>
          (case a0 of
             VString v \<Rightarrow> Inr (VString v, s)
           | VInt v \<Rightarrow> Inr (VString (formatInt v), s)
           | VFloat v \<Rightarrow> Inr (VString (formatFloatF E v), s)
           | VBool v \<Rightarrow> Inr (VString (if v then ''true'' else ''false''), s)
           | VNull \<Rightarrow> Inr (VString ''null'', s)
           | VPath v \<Rightarrow> Inr (VString v, s)
           | _ \<Rightarrow> Inl (BuiltinTypeError ''toString'' (typeOf a0))))"

definition builtinLength :: "Value list \<Rightarrow> State \<Rightarrow> BuiltinResult" where
  "builtinLength args s =
     (case args of
        [] \<Rightarrow> Inl IndexOutOfRange
      | a0 # _ \<Rightarrow>
          (case a0 of
             VList v \<Rightarrow> Inr (VInt (of_nat (length v)), s)
           | VString v \<Rightarrow> Inr (VInt (of_nat (length v)), s)
           | VAttrs v \<Rightarrow> Inr (VInt (of_nat (attrsLen s v)), s)
           | _ \<Rightarrow> Inl (BuiltinTypeError ''length'' (typeOf a0))))"

definition builtinHead :: "Value list \<Rightarrow> State \<Rightarrow> BuiltinResult" where
  "builtinHead args s =
     (case args of
        [] \<Rightarrow> Inl IndexOutOfRange
      | a0 # _ \<Rightarrow>
          (case a0 of
             VList elems \<Rightarrow>
               (case elems of [] \<Rightarrow> Inl HeadOfEmptyList | x # _ \<Rightarrow> Inr (x, s))
           | _ \<Rightarrow> Inl (BuiltinTypeError ''head'' (typeOf a0))))"

definition builtinTail :: "Value list \<Rightarrow> State \<Rightarrow> BuiltinResult" where
  "builtinTail args s =
     (case args of
        [] \<Rightarrow> Inl IndexOutOfRange
      | a0 # _ \<Rightarrow>
          (case a0 of
             VList elems \<Rightarrow>
               (case elems of [] \<Rightarrow> Inl TailOfEmptyList | _ # xs \<Rightarrow> Inr (VList xs, s))
           | _ \<Rightarrow> Inl (BuiltinTypeError ''tail'' (typeOf a0))))"

text \<open>The loop of \<^verbatim>\<open>builtinElem\<close>: the first element equal to \<^verbatim>\<open>elem\<close> ends it.\<close>

fun elemLoop :: "(Value \<Rightarrow> Value \<Rightarrow> bool option) \<Rightarrow> Value \<Rightarrow> Value list \<Rightarrow> bool option" where
  "elemLoop eq elem [] = Some False"
| "elemLoop eq elem (e # es) =
     (case eq elem e of
        None \<Rightarrow> None
      | Some b \<Rightarrow> if b then Some True else elemLoop eq elem es)"

definition builtinElem :: "nat \<Rightarrow> Value list \<Rightarrow> State \<Rightarrow> BuiltinResult" where
  "builtinElem n args s =
     (case args of
        elem # a1 # _ \<Rightarrow>
          (case a1 of
             VList elems \<Rightarrow>
               (case elemLoop (Equals n s) elem elems of
                  None \<Rightarrow> Inl OutOfFuel
                | Some b \<Rightarrow> Inr (VBool b, s))
           | _ \<Rightarrow> Inl (BuiltinTypeError ''elem'' (typeOf a1)))
      | _ \<Rightarrow> Inl IndexOutOfRange)"

definition builtinAttrNames :: "Value list \<Rightarrow> State \<Rightarrow> BuiltinResult" where
  "builtinAttrNames args s =
     (case args of
        [] \<Rightarrow> Inl IndexOutOfRange
      | a0 # _ \<Rightarrow>
          (case a0 of
             VAttrs attrs \<Rightarrow> Inr (VList (map VString (attrsKeys s attrs)), s)
           | _ \<Rightarrow> Inl (BuiltinTypeError ''attrNames'' (typeOf a0))))"

definition builtinAttrValues :: "Value list \<Rightarrow> State \<Rightarrow> BuiltinResult" where
  "builtinAttrValues args s =
     (case args of
        [] \<Rightarrow> Inl IndexOutOfRange
      | a0 # _ \<Rightarrow>
          (case a0 of
             VAttrs attrs \<Rightarrow>
               Inr (VList (map (\<lambda>k. lookupOr VNull (attrsOf s attrs) k) (attrsKeys s attrs)), s)
           | _ \<Rightarrow> Inl (BuiltinTypeError ''attrValues'' (typeOf a0))))"

definition builtinHasAttr :: "Value list \<Rightarrow> State \<Rightarrow> BuiltinResult" where
  "builtinHasAttr args s =
     (case args of
        a0 # a1 # _ \<Rightarrow>
          (case a0 of
             VString name \<Rightarrow>
               (case a1 of
                  VAttrs attrs \<Rightarrow> Inr (VBool (attrsGet s attrs name \<noteq> None), s)
                | _ \<Rightarrow> Inl (BuiltinTypeError ''hasAttr'' (typeOf a1)))
           | _ \<Rightarrow> Inl (BuiltinTypeError ''hasAttr'' (typeOf a0)))
      | _ \<Rightarrow> Inl IndexOutOfRange)"

definition builtinGetAttr :: "Value list \<Rightarrow> State \<Rightarrow> BuiltinResult" where
  "builtinGetAttr args s =
     (case args of
        a0 # a1 # _ \<Rightarrow>
          (case a0 of
             VString name \<Rightarrow>
               (case a1 of
                  VAttrs attrs \<Rightarrow>
                    (case attrsGet s attrs name of
                       None \<Rightarrow> Inl (AttrNotFound name)
                     | Some val \<Rightarrow> Inr (val, s))
                | _ \<Rightarrow> Inl (BuiltinTypeError ''getAttr'' (typeOf a1)))
           | _ \<Rightarrow> Inl (BuiltinTypeError ''getAttr'' (typeOf a0)))
      | _ \<Rightarrow> Inl IndexOutOfRange)"

definition liftBinary ::
  "(Value \<Rightarrow> Value \<Rightarrow> EvalError + Value) \<Rightarrow> Value list \<Rightarrow> State \<Rightarrow> BuiltinResult"
where
  "liftBinary f args s =
     (case args of
        a0 # a1 # _ \<Rightarrow> (case f a0 a1 of Inl err \<Rightarrow> Inl err | Inr v \<Rightarrow> Inr (v, s))
      | _ \<Rightarrow> Inl IndexOutOfRange)"

definition builtinAdd :: "Evaluator \<Rightarrow> Value list \<Rightarrow> State \<Rightarrow> BuiltinResult" where
  "builtinAdd E = liftBinary (evalAdd E)"

definition builtinSub :: "Evaluator \<Rightarrow> Value list \<Rightarrow> State \<Rightarrow> BuiltinResult" where
  "builtinSub E = liftBinary (evalSub E)"

definition builtinMul :: "Evaluator \<Rightarrow> Value list \<Rightarrow> State \<Rightarrow> BuiltinResult" where
  "builtinMul E = liftBinary (evalMul E)"

definition builtinDiv :: "Evaluator \<Rightarrow> Value list \<Rightarrow> State \<Rightarrow> BuiltinResult" where
  "builtinDiv E = liftBinary (evalDiv E)"

definition builtinDerivation :: "Evaluator \<Rightarrow> Value list \<Rightarrow> State \<Rightarrow> BuiltinResult" where
  "builtinDerivation E args s =
     (case args of
        [] \<Rightarrow> Inl IndexOutOfRange
      | a0 # _ \<Rightarrow>
          (case a0 of
             VAttrs attrs \<Rightarrow>
               (case FromAttrs E s attrs of
                  Inl msg \<Rightarrow> Inl (InvalidDerivation msg)
                | Inr drv \<Rightarrow> Inr (ToAttrs drv s))
           | _ \<Rightarrow> Inl (BuiltinTypeError ''derivation'' (typeOf a0))))"

text \<open>
  \<^verbatim>\<open>registerBuiltins\<close>: the three constants, and for every function its name, its arity
  and its implementation. \<^verbatim>\<open>registerBuiltin\<close> wraps the implementation in the check of
  the argument count; \<open>applyBuiltin\<close> is \<^verbatim>\<open>Builtin.Apply\<close> on the wrapper registered under
  a name (there is no other way to make a \<^verbatim>\<open>*Builtin\<close>, so the last case is never taken
  by a value the evaluator built).
\<close>

definition builtinFunctions ::
  "Evaluator \<Rightarrow> nat \<Rightarrow> (string \<times> nat \<times> (Value list \<Rightarrow> State \<Rightarrow> BuiltinResult)) list"
where
  "builtinFunctions E n =
     [(''isNull'', 1, builtinIsNull),
      (''isBool'', 1, builtinIsBool),
      (''isInt'', 1, builtinIsInt),
      (''isFloat'', 1, builtinIsFloat),
      (''isString'', 1, builtinIsString),
      (''isList'', 1, builtinIsList),
      (''isAttrs'', 1, builtinIsAttrs),
      (''isFunction'', 1, builtinIsFunction),
      (''toString'', 1, builtinToString E),
      (''length'', 1, builtinLength),
      (''head'', 1, builtinHead),
      (''tail'', 1, builtinTail),
      (''elem'', 2, builtinElem n),
      (''attrNames'', 1, builtinAttrNames),
      (''attrValues'', 1, builtinAttrValues),
      (''hasAttr'', 2, builtinHasAttr),
      (''getAttr'', 2, builtinGetAttr),
      (''add'', 2, builtinAdd E),
      (''sub'', 2, builtinSub E),
      (''mul'', 2, builtinMul E),
      (''div'', 2, builtinDiv E),
      (''derivation'', 1, builtinDerivation E)]"

definition builtinNames :: "string list" where
  "builtinNames =
     [''isNull'', ''isBool'', ''isInt'', ''isFloat'', ''isString'', ''isList'', ''isAttrs'',
      ''isFunction'', ''toString'', ''length'', ''head'', ''tail'', ''elem'', ''attrNames'',
      ''attrValues'', ''hasAttr'', ''getAttr'', ''add'', ''sub'', ''mul'', ''div'', ''derivation'']"

definition registerBuiltins :: "(string \<times> Value) list" where
  "registerBuiltins =
     [(''true'', VBool True), (''false'', VBool False), (''null'', VNull)]
     @ map (\<lambda>name. (name, VBuiltin name)) builtinNames"

definition applyBuiltin :: "Evaluator \<Rightarrow> nat \<Rightarrow> string \<Rightarrow> Value list \<Rightarrow> State \<Rightarrow> BuiltinResult" where
  "applyBuiltin E n name args s =
     (case map_of (builtinFunctions E n) name of
        Some (arity, fn) \<Rightarrow>
          if length args \<noteq> arity then Inl (Arity name arity (length args))
          else fn args s
      | None \<Rightarrow> Inl (UnknownBuiltin name))"

section \<open>The evaluator (pkg/eval)\<close>

text \<open>
  \<^verbatim>\<open>evalExpr\<close> is a recursive tree walk that need not return (a function may apply
  itself for ever). The model bounds the depth of the walk: \<open>eval E n\<close> is \<^verbatim>\<open>evalExpr\<close>
  allowed \<open>n\<close> nested calls, with the error \<open>OutOfFuel\<close> when they do not suffice. Every
  \<^verbatim>\<open>evalXxx\<close> method below takes the evaluator for its sub-expressions as its argument
  \<open>ev\<close>; \<open>eval\<close> ties the knot. An evaluation returns a value and the store it left, or
  the error that ended it (no error is ever caught, so the store after an error is not
  observed).
\<close>

type_synonym Result = "EvalError + Value \<times> State"
type_synonym EvalFn = "Expr \<Rightarrow> nat \<Rightarrow> State \<Rightarrow> Result"

definition evalIdent :: "string \<Rightarrow> nat \<Rightarrow> State \<Rightarrow> Result" where
  "evalIdent name env s =
     (case envGet s env name of
        Some val \<Rightarrow> Inr (val, s)
      | None \<Rightarrow> Inl (UndefinedVariable name))"

fun evalElements :: "EvalFn \<Rightarrow> Expr list \<Rightarrow> nat \<Rightarrow> State \<Rightarrow> EvalError + Value list \<times> State" where
  "evalElements ev [] env s = Inr ([], s)"
| "evalElements ev (elem # rest) env s =
     (case ev elem env s of
        Inl err \<Rightarrow> Inl err
      | Inr (val, s1) \<Rightarrow>
          (case evalElements ev rest env s1 of
             Inl err \<Rightarrow> Inl err
           | Inr (vals, s2) \<Rightarrow> Inr (val # vals, s2)))"

definition evalList :: "EvalFn \<Rightarrow> Expr list \<Rightarrow> nat \<Rightarrow> State \<Rightarrow> Result" where
  "evalList ev elements env s =
     (case evalElements ev elements env s of
        Inl err \<Rightarrow> Inl err
      | Inr (vals, s1) \<Rightarrow> Inr (VList vals, s1))"

fun isSimpleExpr :: "Expr \<Rightarrow> bool" where
  "isSimpleExpr (IntExpr _) = True"
| "isSimpleExpr (FloatExpr _) = True"
| "isSimpleExpr (StringExpr _) = True"
| "isSimpleExpr (BoolExpr _) = True"
| "isSimpleExpr NullExpr = True"
| "isSimpleExpr (PathExpr _) = True"
| "isSimpleExpr _ = False"

text \<open>
  \<^verbatim>\<open>setNestedAttr\<close>: \<open>walkPath\<close> is its loop over all but the last component of the path,
  followed by the final \<^verbatim>\<open>Set\<close>. It descends into a set that is already there, which
  may be a set shared with other values.
\<close>

fun walkPath :: "nat \<Rightarrow> string list \<Rightarrow> Value \<Rightarrow> State \<Rightarrow> EvalError + State" where
  "walkPath current [] val s = Inl EmptyAttrPath"
| "walkPath current [key] val s = Inr (attrsSet current key val s)"
| "walkPath current (key # rest) val s =
     (case attrsGet s current key of
        Some existing \<Rightarrow>
          (case existing of
             VAttrs nested \<Rightarrow> walkPath nested rest val s
           | _ \<Rightarrow> Inl (AttrPathConflict key))
      | None \<Rightarrow>
          (let (nested, s1) = NewAttrs s
           in walkPath nested rest val (attrsSet current key (VAttrs nested) s1)))"

definition setNestedAttr ::
  "EvalFn \<Rightarrow> nat \<Rightarrow> string list \<Rightarrow> Expr \<Rightarrow> nat \<Rightarrow> State \<Rightarrow> EvalError + State"
where
  "setNestedAttr ev attrs path expr env s =
     (if path = [] then Inl EmptyAttrPath
      else (case ev expr env s of
              Inl err \<Rightarrow> Inl err
            | Inr (val, s1) \<Rightarrow> walkPath attrs path val s1))"

text \<open>The three loops of \<^verbatim>\<open>evalAttrSet\<close> over \<^verbatim>\<open>expr.Bindings\<close>.\<close>

fun recFirstPass ::
  "EvalFn \<Rightarrow> nat \<Rightarrow> nat \<Rightarrow> (string list \<times> Expr) list \<Rightarrow> State \<Rightarrow> EvalError + State"
where
  "recFirstPass ev attrs recEnv [] s = Inr s"
| "recFirstPass ev attrs recEnv ((path, val) # rest) s =
     (if length path = 1 \<and> isSimpleExpr val then
        (case ev val recEnv s of
           Inl err \<Rightarrow> Inl err
         | Inr (v, s1) \<Rightarrow>
             recFirstPass ev attrs recEnv rest
               (envSet recEnv (hd path) v (attrsSet attrs (hd path) v s1)))
      else recFirstPass ev attrs recEnv rest s)"

fun recSecondPass ::
  "EvalFn \<Rightarrow> nat \<Rightarrow> nat \<Rightarrow> (string list \<times> Expr) list \<Rightarrow> State \<Rightarrow> EvalError + State"
where
  "recSecondPass ev attrs recEnv [] s = Inr s"
| "recSecondPass ev attrs recEnv ((path, val) # rest) s =
     (if length path = 1 \<and> \<not> isSimpleExpr val then
        (case ev val recEnv s of
           Inl err \<Rightarrow> Inl err
         | Inr (v, s1) \<Rightarrow> recSecondPass ev attrs recEnv rest (attrsSet attrs (hd path) v s1))
      else if length path > 1 then
        (case setNestedAttr ev attrs path val recEnv s of
           Inl err \<Rightarrow> Inl err
         | Inr s1 \<Rightarrow> recSecondPass ev attrs recEnv rest s1)
      else recSecondPass ev attrs recEnv rest s)"

fun plainPass ::
  "EvalFn \<Rightarrow> nat \<Rightarrow> nat \<Rightarrow> (string list \<times> Expr) list \<Rightarrow> State \<Rightarrow> EvalError + State"
where
  "plainPass ev attrs evalEnv [] s = Inr s"
| "plainPass ev attrs evalEnv ((path, val) # rest) s =
     (if length path = 1 then
        (case ev val evalEnv s of
           Inl err \<Rightarrow> Inl err
         | Inr (v, s1) \<Rightarrow> plainPass ev attrs evalEnv rest (attrsSet attrs (hd path) v s1))
      else
        (case setNestedAttr ev attrs path val evalEnv s of
           Inl err \<Rightarrow> Inl err
         | Inr s1 \<Rightarrow> plainPass ev attrs evalEnv rest s1))"

definition evalAttrSet ::
  "EvalFn \<Rightarrow> bool \<Rightarrow> (string list \<times> Expr) list \<Rightarrow> nat \<Rightarrow> State \<Rightarrow> Result"
where
  "evalAttrSet ev recursive binds env s =
     (let (attrs, s1) = NewAttrs s in
      if recursive then
        (let (recEnv, s2) = Extend env s1 in
         case recFirstPass ev attrs recEnv binds s2 of
           Inl err \<Rightarrow> Inl err
         | Inr s3 \<Rightarrow>
             (case recSecondPass ev attrs recEnv binds s3 of
                Inl err \<Rightarrow> Inl err
              | Inr s4 \<Rightarrow> Inr (VAttrs attrs, s4)))
      else
        (case plainPass ev attrs env binds s1 of
           Inl err \<Rightarrow> Inl err
         | Inr s2 \<Rightarrow> Inr (VAttrs attrs, s2)))"

subsection \<open>Operators\<close>

definition evalAnd :: "EvalFn \<Rightarrow> Expr \<Rightarrow> Expr \<Rightarrow> nat \<Rightarrow> State \<Rightarrow> Result" where
  "evalAnd ev left right env s =
     (case ev left env s of
        Inl err \<Rightarrow> Inl err
      | Inr (l, s1) \<Rightarrow>
          (case l of
             VBool leftBool \<Rightarrow>
               if \<not> leftBool then Inr (VBool False, s1)
               else
                 (case ev right env s1 of
                    Inl err \<Rightarrow> Inl err
                  | Inr (r, s2) \<Rightarrow>
                      (case r of
                         VBool rightBool \<Rightarrow> Inr (VBool rightBool, s2)
                       | _ \<Rightarrow> Inl (AndRequiresBool (typeOf r))))
           | _ \<Rightarrow> Inl (AndRequiresBool (typeOf l))))"

definition evalOr :: "EvalFn \<Rightarrow> Expr \<Rightarrow> Expr \<Rightarrow> nat \<Rightarrow> State \<Rightarrow> Result" where
  "evalOr ev left right env s =
     (case ev left env s of
        Inl err \<Rightarrow> Inl err
      | Inr (l, s1) \<Rightarrow>
          (case l of
             VBool leftBool \<Rightarrow>
               if leftBool then Inr (VBool True, s1)
               else
                 (case ev right env s1 of
                    Inl err \<Rightarrow> Inl err
                  | Inr (r, s2) \<Rightarrow>
                      (case r of
                         VBool rightBool \<Rightarrow> Inr (VBool rightBool, s2)
                       | _ \<Rightarrow> Inl (OrRequiresBool (typeOf r))))
           | _ \<Rightarrow> Inl (OrRequiresBool (typeOf l))))"

definition evalImpl :: "EvalFn \<Rightarrow> Expr \<Rightarrow> Expr \<Rightarrow> nat \<Rightarrow> State \<Rightarrow> Result" where
  "evalImpl ev left right env s =
     (case ev left env s of
        Inl err \<Rightarrow> Inl err
      | Inr (l, s1) \<Rightarrow>
          (case l of
             VBool leftBool \<Rightarrow>
               if \<not> leftBool then Inr (VBool True, s1)
               else
                 (case ev right env s1 of
                    Inl err \<Rightarrow> Inl err
                  | Inr (r, s2) \<Rightarrow>
                      (case r of
                         VBool rightBool \<Rightarrow> Inr (VBool rightBool, s2)
                       | _ \<Rightarrow> Inl (ImplRequiresBool (typeOf r))))
           | _ \<Rightarrow> Inl (ImplRequiresBool (typeOf l))))"

definition pureResult :: "State \<Rightarrow> EvalError + Value \<Rightarrow> Result" where
  "pureResult s r = (case r of Inl err \<Rightarrow> Inl err | Inr v \<Rightarrow> Inr (v, s))"

definition boolResult :: "State \<Rightarrow> (bool \<Rightarrow> bool) \<Rightarrow> EvalError + bool \<Rightarrow> Result" where
  "boolResult s f r = (case r of Inl err \<Rightarrow> Inl err | Inr b \<Rightarrow> Inr (VBool (f b), s))"

definition evalBinary ::
  "Evaluator \<Rightarrow> EvalFn \<Rightarrow> nat \<Rightarrow> Expr \<Rightarrow> BinaryOp \<Rightarrow> Expr \<Rightarrow> nat \<Rightarrow> State \<Rightarrow> Result"
where
  "evalBinary E ev n left op right env s =
     (if op = OpAnd then evalAnd ev left right env s
      else if op = OpOr then evalOr ev left right env s
      else if op = OpImpl then evalImpl ev left right env s
      else
        (case ev left env s of
           Inl err \<Rightarrow> Inl err
         | Inr (l, s1) \<Rightarrow>
             (case ev right env s1 of
                Inl err \<Rightarrow> Inl err
              | Inr (r, s2) \<Rightarrow>
                  (case op of
                     OpAdd \<Rightarrow> pureResult s2 (evalAdd E l r)
                   | OpSub \<Rightarrow> pureResult s2 (evalSub E l r)
                   | OpMul \<Rightarrow> pureResult s2 (evalMul E l r)
                   | OpDiv \<Rightarrow> pureResult s2 (evalDiv E l r)
                   | OpConcat \<Rightarrow> pureResult s2 (evalConcat l r)
                   | OpEq \<Rightarrow> boolResult s2 (\<lambda>b. b) (equalsValue n s2 l r)
                   | OpNEq \<Rightarrow> boolResult s2 (\<lambda>b. \<not> b) (equalsValue n s2 l r)
                   | OpLT \<Rightarrow> pureResult s2 (evalLess E l r)
                   | OpGT \<Rightarrow> pureResult s2 (evalGreater E l r)
                   | OpLTE \<Rightarrow> pureResult s2 (evalLessEq E n s2 l r)
                   | OpGTE \<Rightarrow> pureResult s2 (evalGreaterEq E n s2 l r)
                   | OpUpdate \<Rightarrow> evalUpdate l r s2
                   | _ \<Rightarrow> Inl UnknownBinaryOperator))))"

definition evalUnary :: "Evaluator \<Rightarrow> EvalFn \<Rightarrow> UnaryOp \<Rightarrow> Expr \<Rightarrow> nat \<Rightarrow> State \<Rightarrow> Result" where
  "evalUnary E ev op expr env s =
     (case ev expr env s of
        Inl err \<Rightarrow> Inl err
      | Inr (operand, s1) \<Rightarrow>
          (case op of
             OpNot \<Rightarrow>
               (case operand of
                  VBool b \<Rightarrow> Inr (VBool (\<not> b), s1)
                | _ \<Rightarrow> Inl (NotRequiresBool (typeOf operand)))
           | OpNeg \<Rightarrow>
               (case operand of
                  VInt v \<Rightarrow> Inr (VInt (- v), s1)
                | VFloat v \<Rightarrow> Inr (VFloat (floatNeg E v), s1)
                | _ \<Rightarrow> Inl (NegRequiresNumeric (typeOf operand)))))"

subsection \<open>Control flow (pkg/eval/control_flow.go)\<close>

definition evalIf :: "EvalFn \<Rightarrow> Expr \<Rightarrow> Expr \<Rightarrow> Expr \<Rightarrow> nat \<Rightarrow> State \<Rightarrow> Result" where
  "evalIf ev cond thenE elseE env s =
     (case ev cond env s of
        Inl err \<Rightarrow> Inl err
      | Inr (c, s1) \<Rightarrow>
          (case c of
             VBool condBool \<Rightarrow> if condBool then ev thenE env s1 else ev elseE env s1
           | _ \<Rightarrow> Inl (IfConditionNotBool (typeOf c))))"

fun letBindings :: "EvalFn \<Rightarrow> (string \<times> Expr) list \<Rightarrow> nat \<Rightarrow> State \<Rightarrow> EvalError + State" where
  "letBindings ev [] letEnv s = Inr s"
| "letBindings ev ((name, val) # rest) letEnv s =
     (case ev val letEnv s of
        Inl err \<Rightarrow> Inl (LetBindingError name err)
      | Inr (v, s1) \<Rightarrow> letBindings ev rest letEnv (envSet letEnv name v s1))"

definition evalLet :: "EvalFn \<Rightarrow> (string \<times> Expr) list \<Rightarrow> Expr \<Rightarrow> nat \<Rightarrow> State \<Rightarrow> Result" where
  "evalLet ev binds body env s =
     (let (letEnv, s1) = Extend env s in
      case letBindings ev binds letEnv s1 of
        Inl err \<Rightarrow> Inl err
      | Inr s2 \<Rightarrow> ev body letEnv s2)"

text \<open>
  \<^verbatim>\<open>evalWith\<close>: the new frame is a child of the current one, and every key of the set is
  written into it before the body is evaluated in it.
\<close>

definition bindAttrs :: "nat \<Rightarrow> nat \<Rightarrow> string list \<Rightarrow> State \<Rightarrow> State" where
  "bindAttrs attrs withEnv keys s =
     fold (\<lambda>key st. case attrsGet st attrs key of Some val \<Rightarrow> envSet withEnv key val st | None \<Rightarrow> st)
       keys s"

definition evalWith :: "EvalFn \<Rightarrow> Expr \<Rightarrow> Expr \<Rightarrow> nat \<Rightarrow> State \<Rightarrow> Result" where
  "evalWith ev scope body env s =
     (case ev scope env s of
        Inl err \<Rightarrow> Inl err
      | Inr (scopeVal, s1) \<Rightarrow>
          (case scopeVal of
             VAttrs attrs \<Rightarrow>
               (let (withEnv, s2) = Extend env s1;
                    s3 = bindAttrs attrs withEnv (attrsKeys s2 attrs) s2
                in ev body withEnv s3)
           | _ \<Rightarrow> Inl (WithRequiresAttrs (typeOf scopeVal))))"

definition evalAssert :: "EvalFn \<Rightarrow> Expr \<Rightarrow> Expr \<Rightarrow> nat \<Rightarrow> State \<Rightarrow> Result" where
  "evalAssert ev cond body env s =
     (case ev cond env s of
        Inl err \<Rightarrow> Inl err
      | Inr (c, s1) \<Rightarrow>
          (case c of
             VBool condBool \<Rightarrow> if \<not> condBool then Inl AssertionFailed else ev body env s1
           | _ \<Rightarrow> Inl (AssertConditionNotBool (typeOf c))))"

subsection \<open>Application, selection and existence\<close>

text \<open>
  \<^verbatim>\<open>evalApply\<close> hands a built-in the one-element slice \<^verbatim>\<open>[]value.Value{argVal}\<close>, whatever
  the arity the built-in was registered with.
\<close>

definition evalApply :: "Evaluator \<Rightarrow> EvalFn \<Rightarrow> nat \<Rightarrow> Expr \<Rightarrow> Expr \<Rightarrow> nat \<Rightarrow> State \<Rightarrow> Result" where
  "evalApply E ev n func arg env s =
     (case ev func env s of
        Inl err \<Rightarrow> Inl err
      | Inr (fnVal, s1) \<Rightarrow>
          (case ev arg env s1 of
             Inl err \<Rightarrow> Inl err
           | Inr (argVal, s2) \<Rightarrow>
               (case fnVal of
                  VFunction param body fenv \<Rightarrow>
                    (let (fnEnv, s3) = Extend fenv s2;
                         s4 = envSet fnEnv param argVal s3
                     in if body = NilExpr then Inl InvalidFunctionBody else ev body fnEnv s4)
                | VBuiltin name \<Rightarrow> applyBuiltin E n name [argVal] s2
                | _ \<Rightarrow> Inl (NonFunctionApply (typeOf fnVal)))))"

fun selectPath :: "EvalFn \<Rightarrow> Expr \<Rightarrow> nat \<Rightarrow> Value \<Rightarrow> string list \<Rightarrow> State \<Rightarrow> Result" where
  "selectPath ev dflt env current [] s = Inl UnexpectedEndOfPath"
| "selectPath ev dflt env current (key # rest) s =
     (case current of
        VAttrs attrs \<Rightarrow>
          (case attrsGet s attrs key of
             None \<Rightarrow> if dflt \<noteq> NilExpr then ev dflt env s else Inl (AttrNotFound key)
           | Some next \<Rightarrow> if rest = [] then Inr (next, s) else selectPath ev dflt env next rest s)
      | _ \<Rightarrow> if dflt \<noteq> NilExpr then ev dflt env s else Inl (CannotSelect key (typeOf current)))"

definition evalSelect :: "EvalFn \<Rightarrow> Expr \<Rightarrow> string list \<Rightarrow> Expr \<Rightarrow> nat \<Rightarrow> State \<Rightarrow> Result" where
  "evalSelect ev expr attrPath dflt env s =
     (case ev expr env s of
        Inl err \<Rightarrow> Inl err
      | Inr (val, s1) \<Rightarrow> selectPath ev dflt env val attrPath s1)"

fun hasPath :: "State \<Rightarrow> Value \<Rightarrow> string list \<Rightarrow> bool" where
  "hasPath s current [] = True"
| "hasPath s current (key # rest) =
     (case current of
        VAttrs attrs \<Rightarrow>
          (case attrsGet s attrs key of
             None \<Rightarrow> False
           | Some next \<Rightarrow> if rest = [] then True else hasPath s next rest)
      | _ \<Rightarrow> False)"

definition evalHasAttr :: "EvalFn \<Rightarrow> Expr \<Rightarrow> string list \<Rightarrow> nat \<Rightarrow> State \<Rightarrow> Result" where
  "evalHasAttr ev expr attrPath env s =
     (case ev expr env s of
        Inl err \<Rightarrow> Inl err
      | Inr (val, s1) \<Rightarrow> Inr (VBool (hasPath s1 val attrPath), s1))"

subsection \<open>Dispatch\<close>

definition resolvePath :: "Evaluator \<Rightarrow> string \<Rightarrow> string" where
  "resolvePath E path = (if filepathIsAbs E path then path else filepathJoin E (baseDir E) path)"

definition evalExpr :: "Evaluator \<Rightarrow> EvalFn \<Rightarrow> nat \<Rightarrow> Expr \<Rightarrow> nat \<Rightarrow> State \<Rightarrow> Result" where
  "evalExpr E ev n expr env s =
     (case expr of
        IntExpr v \<Rightarrow> Inr (VInt v, s)
      | FloatExpr v \<Rightarrow> Inr (VFloat v, s)
      | StringExpr v \<Rightarrow> Inr (VString v, s)
      | BoolExpr v \<Rightarrow> Inr (VBool v, s)
      | NullExpr \<Rightarrow> Inr (VNull, s)
      | PathExpr v \<Rightarrow> Inr (VPath (resolvePath E v), s)
      | IdentExpr name \<Rightarrow> evalIdent name env s
      | ListExpr elements \<Rightarrow> evalList ev elements env s
      | AttrSetExpr recursive binds \<Rightarrow> evalAttrSet ev recursive binds env s
      | BinaryExpr left op right \<Rightarrow> evalBinary E ev n left op right env s
      | UnaryExpr op e \<Rightarrow> evalUnary E ev op e env s
      | IfExpr cond thenE elseE \<Rightarrow> evalIf ev cond thenE elseE env s
      | LetExpr binds body \<Rightarrow> evalLet ev binds body env s
      | WithExpr scope body \<Rightarrow> evalWith ev scope body env s
      | AssertExpr cond body \<Rightarrow> evalAssert ev cond body env s
      | FunctionExpr param body \<Rightarrow> Inr (VFunction param body env, s)
      | ApplyExpr func arg \<Rightarrow> evalApply E ev n func arg env s
      | SelectExpr e attrPath dflt \<Rightarrow> evalSelect ev e attrPath dflt env s
      | HasAttrExpr e attrPath \<Rightarrow> evalHasAttr ev e attrPath env s
      | NilExpr \<Rightarrow> Inl UnknownExpressionType)"

primrec eval :: "Evaluator \<Rightarrow> nat \<Rightarrow> Expr \<Rightarrow> nat \<Rightarrow> State \<Rightarrow> Result" where
  "eval E 0 = (\<lambda>expr env s. Inl OutOfFuel)"
| "eval E (Suc n) = evalExpr E (eval E n) n"

text \<open>
  \<^verbatim>\<open>Eval\<close>: a fresh store with one frame, into which every entry of the registry is
  written, and the expression evaluated in that frame.
\<close>

definition emptyState :: State where
  "emptyState = \<lparr>envs = [], objs = []\<rparr>"

definition globalEnv :: "nat \<times> State" where
  "globalEnv =
     (let (env, s) = NewEnv emptyState
      in (env, fold (\<lambda>(name, builtin). envSet env name builtin) registerBuiltins s))"

definition Eval :: "Evaluator \<Rightarrow> nat \<Rightarrow> Expr \<Rightarrow> Result" where
  "Eval E n expr = eval E n expr (fst globalEnv) (snd globalEnv)"

section \<open>Tokens (pkg/lexer)\<close>

datatype TokenType =
  TOKEN_EOF | TOKEN_ILLEGAL
  | TOKEN_INT | TOKEN_FLOAT | TOKEN_STRING | TOKEN_PATH | TOKEN_IDENT
  | TOKEN_IF | TOKEN_THEN | TOKEN_ELSE | TOKEN_LET | TOKEN_IN | TOKEN_WITH | TOKEN_ASSERT
  | TOKEN_OR | TOKEN_AND | TOKEN_NOT | TOKEN_REC | TOKEN_INHERIT
  | TOKEN_ASSIGN
  | TOKEN_PLUS | TOKEN_MINUS | TOKEN_MULTIPLY | TOKEN_DIVIDE
  | TOKEN_EQ | TOKEN_NEQ | TOKEN_LT | TOKEN_GT | TOKEN_LTE | TOKEN_GTE
  | TOKEN_AND_OP | TOKEN_OR_OP | TOKEN_IMPL
  | TOKEN_CONCAT | TOKEN_QUESTION | TOKEN_DOT
  | TOKEN_SEMICOLON | TOKEN_COLON | TOKEN_COMMA
  | TOKEN_LPAREN | TOKEN_RPAREN | TOKEN_LBRACE | TOKEN_RBRACE | TOKEN_LBRACKET | TOKEN_RBRACKET

record Token =
  Type :: TokenType
  Literal :: string
  Line :: nat
  Column :: nat

definition keywordTable :: "(string \<times> TokenType) list" where
  "keywordTable =
     [(''if'', TOKEN_IF), (''then'', TOKEN_THEN), (''else'', TOKEN_ELSE), (''let'', TOKEN_LET),
      (''in'', TOKEN_IN), (''with'', TOKEN_WITH), (''assert'', TOKEN_ASSERT), (''or'', TOKEN_OR),
      (''and'', TOKEN_AND), (''not'', TOKEN_NOT), (''rec'', TOKEN_REC),
      (''inherit'', TOKEN_INHERIT)]"

definition LookupIdent :: "string \<Rightarrow> TokenType" where
  "LookupIdent ident = (case map_of keywordTable ident of Some tok \<Rightarrow> tok | None \<Rightarrow> TOKEN_IDENT)"

definition isLetter :: "char \<Rightarrow> bool" where
  "isLetter c \<longleftrightarrow>
     (CHR ''a'' \<le> c \<and> c \<le> CHR ''z'') \<or> (CHR ''A'' \<le> c \<and> c \<le> CHR ''Z'') \<or> c = CHR ''_''"

definition isDigit :: "char \<Rightarrow> bool" where
  "isDigit c \<longleftrightarrow> CHR ''0'' \<le> c \<and> c \<le> CHR ''9''"

definition isPathChar :: "char \<Rightarrow> bool" where
  "isPathChar c \<longleftrightarrow>
     isLetter c \<or> isDigit c \<or> c = CHR ''/'' \<or> c = CHR ''.'' \<or> c = CHR ''-'' \<or> c = CHR ''_''"

text \<open>
  \<^verbatim>\<open>unicode.IsLetter\<close> on a rune made from one byte (a code point below 256), and the
  conversion \<^verbatim>\<open>string(l.ch)\<close> of a byte, which is the UTF-8 encoding of that code point.
\<close>

definition unicodeIsLetter :: "char \<Rightarrow> bool" where
  "unicodeIsLetter c \<longleftrightarrow>
     (let n = (of_char c :: nat) in
        (65 \<le> n \<and> n \<le> 90) \<or> (97 \<le> n \<and> n \<le> 122) \<or> n = 170 \<or> n = 181 \<or> n = 186
        \<or> (192 \<le> n \<and> n \<le> 214) \<or> (216 \<le> n \<and> n \<le> 246) \<or> (248 \<le> n \<and> n \<le> 255))"

definition stringOfByte :: "char \<Rightarrow> string" where
  "stringOfByte c =
     (let n = (of_char c :: nat) in
        if n < 128 then [c] else [char_of (192 + n div 64), char_of (128 + n mod 64)])"

section \<open>The lexer (pkg/lexer/lexer.go)\<close>

text \<open>
  The \<^verbatim>\<open>Lexer\<close> struct, field by field. \<open>panicked\<close> is not a field of the struct: it
  records that a slice expression \<^verbatim>\<open>l.input[a:b]\<close> was out of range, where the Go program
  stops with a run-time panic (\<^verbatim>\<open>readString\<close> reaches it on an input that ends in an
  unterminated string whose last byte is a backslash). Whatever the model computes after
  that point is discarded by \<open>Parse\<close>.
\<close>

record Lexer =
  input :: string
  position :: nat
  readPosition :: nat
  ch :: char
  line :: nat
  column :: nat
  panicked :: bool

definition readChar :: "Lexer \<Rightarrow> Lexer" where
  "readChar lx =
     (let c = (if readPosition lx \<ge> length (input lx) then CHR 0x00
               else input lx ! readPosition lx);
          lx1 = lx\<lparr>ch := c, position := readPosition lx, readPosition := readPosition lx + 1\<rparr>
      in if c = CHR 0x0A then lx1\<lparr>line := line lx1 + 1, column := 0\<rparr>
         else lx1\<lparr>column := column lx1 + 1\<rparr>)"

definition NewLexer :: "string \<Rightarrow> Lexer" where
  "NewLexer inp =
     readChar \<lparr>input = inp, position = 0, readPosition = 0, ch = CHR 0x00, line = 1, column = 0,
               panicked = False\<rparr>"

definition peekChar :: "Lexer \<Rightarrow> char" where
  "peekChar lx =
     (if readPosition lx \<ge> length (input lx) then CHR 0x00 else input lx ! readPosition lx)"

definition sliceInput :: "Lexer \<Rightarrow> nat \<Rightarrow> nat \<Rightarrow> string \<times> Lexer" where
  "sliceInput lx a b =
     (if a \<le> b \<and> b \<le> length (input lx) then (take (b - a) (drop a (input lx)), lx)
      else ([], lx\<lparr>panicked := True\<rparr>))"

text \<open>
  Every loop of the lexer goes on only while the current byte is not the end marker 0,
  and \<^verbatim>\<open>readChar\<close> yields 0 once the input is used up: \<open>remaining\<close> decreases with each
  step of each loop.
\<close>

definition remaining :: "Lexer \<Rightarrow> nat" where
  "remaining lx =
     (if ch lx \<noteq> CHR 0x00 then 1 else 0) + 2 * (Suc (length (input lx)) - readPosition lx)"

lemma remaining_readChar:
  "ch lx \<noteq> CHR 0x00 \<Longrightarrow> remaining (readChar lx) < remaining lx"
  by (auto simp: remaining_def readChar_def Let_def)

lemma remaining_readChar_le: "remaining (readChar lx) \<le> remaining lx + 1"
  by (auto simp: remaining_def readChar_def Let_def)

function skipWhitespace :: "Lexer \<Rightarrow> Lexer" where
  "skipWhitespace lx =
     (if ch lx = CHR '' '' \<or> ch lx = CHR 0x09 \<or> ch lx = CHR 0x0A \<or> ch lx = CHR 0x0D
      then skipWhitespace (readChar lx) else lx)"
  by pat_completeness auto
termination
  by (relation "measure remaining") (auto intro: remaining_readChar)

declare skipWhitespace.simps [simp del]

function skipLine :: "Lexer \<Rightarrow> Lexer" where
  "skipLine lx =
     (if ch lx \<noteq> CHR 0x0A \<and> ch lx \<noteq> CHR 0x00 then skipLine (readChar lx) else lx)"
  by pat_completeness auto
termination
  by (relation "measure remaining") (auto intro: remaining_readChar)

declare skipLine.simps [simp del]

function skipBlock :: "Lexer \<Rightarrow> Lexer" where
  "skipBlock lx =
     (if ch lx \<noteq> CHR 0x00 then
        (if ch lx = CHR ''*'' \<and> peekChar lx = CHR ''/'' then readChar (readChar lx)
         else skipBlock (readChar lx))
      else lx)"
  by pat_completeness auto
termination
  by (relation "measure remaining") (auto intro: remaining_readChar)

declare skipBlock.simps [simp del]

definition skipComment :: "Lexer \<Rightarrow> Lexer" where
  "skipComment lx =
     (if ch lx = CHR ''#'' then skipLine lx
      else if ch lx = CHR ''/'' \<and> peekChar lx = CHR ''*'' then skipBlock (readChar (readChar lx))
      else lx)"

function readIdentifierLoop :: "Lexer \<Rightarrow> Lexer" where
  "readIdentifierLoop lx =
     (if isLetter (ch lx) \<or> isDigit (ch lx) then readIdentifierLoop (readChar lx) else lx)"
  by pat_completeness auto
termination
  by (relation "measure remaining") (auto intro: remaining_readChar simp: isLetter_def isDigit_def)

declare readIdentifierLoop.simps [simp del]

definition readIdentifier :: "Lexer \<Rightarrow> string \<times> Lexer" where
  "readIdentifier lx =
     (let lx1 = readIdentifierLoop lx in sliceInput lx1 (position lx) (position lx1))"

function readDigits :: "Lexer \<Rightarrow> Lexer" where
  "readDigits lx = (if isDigit (ch lx) then readDigits (readChar lx) else lx)"
  by pat_completeness auto
termination
  by (relation "measure remaining") (auto intro: remaining_readChar simp: isDigit_def)

declare readDigits.simps [simp del]

definition readNumber :: "Lexer \<Rightarrow> (string \<times> TokenType) \<times> Lexer" where
  "readNumber lx =
     (let lx1 = readDigits lx in
      if ch lx1 = CHR ''.'' \<and> isDigit (peekChar lx1) then
        (let lx2 = readDigits (readChar lx1);
             (lit, lx3) = sliceInput lx2 (position lx) (position lx2)
         in ((lit, TOKEN_FLOAT), lx3))
      else
        (let (lit, lx3) = sliceInput lx1 (position lx) (position lx1)
         in ((lit, TOKEN_INT), lx3)))"

function readStringLoop :: "Lexer \<Rightarrow> Lexer" where
  "readStringLoop lx =
     (let lx1 = readChar lx in
      if ch lx1 = CHR 0x22 \<or> ch lx1 = CHR 0x00 then lx1
      else readStringLoop (if ch lx1 = CHR 0x5C then readChar lx1 else lx1))"
  by pat_completeness auto
termination
proof (relation "measure (\<lambda>lx. Suc (length (input lx)) - readPosition lx)")
  show "wf (measure (\<lambda>lx. Suc (length (input lx)) - readPosition lx))" by simp
next
  fix lx lx1
  assume a: "lx1 = readChar lx" and b: "\<not> (ch lx1 = CHR 0x22 \<or> ch lx1 = CHR 0x00)"
  from a b have "readPosition lx < length (input lx)"
    by (auto simp: readChar_def Let_def split: if_splits)
  with a show "((if ch lx1 = CHR 0x5C then readChar lx1 else lx1), lx)
        \<in> measure (\<lambda>lx. Suc (length (input lx)) - readPosition lx)"
    by (auto simp: readChar_def Let_def)
qed

declare readStringLoop.simps [simp del]

definition readString :: "Lexer \<Rightarrow> string \<times> Lexer" where
  "readString lx =
     (let lx1 = readStringLoop lx in sliceInput lx1 (position lx + 1) (position lx1))"

function readPathLoop :: "Lexer \<Rightarrow> Lexer" where
  "readPathLoop lx = (if isPathChar (ch lx) then readPathLoop (readChar lx) else lx)"
  by pat_completeness auto
termination
  by (relation "measure remaining")
    (auto intro: remaining_readChar simp: isPathChar_def isLetter_def isDigit_def)

declare readPathLoop.simps [simp del]

definition readPath :: "Lexer \<Rightarrow> string \<times> Lexer" where
  "readPath lx = (let lx1 = readPathLoop lx in sliceInput lx1 (position lx) (position lx1))"

text \<open>
  The loop at the head of \<^verbatim>\<open>NextToken\<close>: white space, then a comment if one starts here,
  and again. A comment that starts is at least one byte long.
\<close>

lemma remaining_skipWhitespace: "remaining (skipWhitespace lx) \<le> remaining lx"
proof (induction lx rule: skipWhitespace.induct)
  case (1 lx)
  show ?case
  proof (cases "ch lx = CHR '' '' \<or> ch lx = CHR 0x09 \<or> ch lx = CHR 0x0A \<or> ch lx = CHR 0x0D")
    case True
    then have "ch lx \<noteq> CHR 0x00" by auto
    then have "remaining (readChar lx) < remaining lx" by (rule remaining_readChar)
    moreover have "remaining (skipWhitespace (readChar lx)) \<le> remaining (readChar lx)"
      using "1.IH" True by simp
    ultimately show ?thesis using True by (subst skipWhitespace.simps) auto
  next
    case False
    then show ?thesis by (subst skipWhitespace.simps) auto
  qed
qed

lemma remaining_skipLine: "remaining (skipLine lx) \<le> remaining lx"
proof (induction lx rule: skipLine.induct)
  case (1 lx)
  show ?case
  proof (cases "ch lx \<noteq> CHR 0x0A \<and> ch lx \<noteq> CHR 0x00")
    case True
    then have "remaining (readChar lx) < remaining lx" by (simp add: remaining_readChar)
    moreover have "remaining (skipLine (readChar lx)) \<le> remaining (readChar lx)"
      using "1.IH" True by simp
    ultimately show ?thesis using True by (subst skipLine.simps) auto
  next
    case False
    then show ?thesis by (subst skipLine.simps) auto
  qed
qed

lemma remaining_skipLine_hash: "ch lx = CHR ''#'' \<Longrightarrow> remaining (skipLine lx) < remaining lx"
proof -
  assume h: "ch lx = CHR ''#''"
  then have "remaining (readChar lx) < remaining lx" by (simp add: remaining_readChar)
  moreover have "skipLine lx = skipLine (readChar lx)"
    using h by (subst skipLine.simps) simp
  ultimately show ?thesis using remaining_skipLine [of "readChar lx"] by simp
qed

lemma remaining_readChar_twice:
  "ch lx \<noteq> CHR 0x00 \<Longrightarrow> remaining (readChar (readChar lx)) < remaining lx"
  by (auto simp: remaining_def readChar_def Let_def)

lemma remaining_skipBlock: "remaining (skipBlock lx) \<le> remaining lx"
proof (induction lx rule: skipBlock.induct)
  case (1 lx)
  show ?case
  proof (cases "ch lx \<noteq> CHR 0x00")
    case nz: True
    show ?thesis
    proof (cases "ch lx = CHR ''*'' \<and> peekChar lx = CHR ''/''")
      case True
      then show ?thesis
        using nz remaining_readChar_twice [of lx] by (subst skipBlock.simps) simp
    next
      case False
      have "remaining (readChar lx) < remaining lx" using nz by (rule remaining_readChar)
      moreover have "remaining (skipBlock (readChar lx)) \<le> remaining (readChar lx)"
        using "1.IH" nz False by simp
      ultimately show ?thesis using nz False by (subst skipBlock.simps) auto
    qed
  next
    case False
    then show ?thesis by (subst skipBlock.simps) auto
  qed
qed

lemma remaining_skipComment:
  "ch lx = CHR ''#'' \<or> (ch lx = CHR ''/'' \<and> peekChar lx = CHR ''*'')
   \<Longrightarrow> remaining (skipComment lx) < remaining lx"
proof (cases "ch lx = CHR ''#''")
  case True
  then show ?thesis by (simp add: skipComment_def remaining_skipLine_hash)
next
  case False
  assume "ch lx = CHR ''#'' \<or> (ch lx = CHR ''/'' \<and> peekChar lx = CHR ''*'')"
  with False have s: "ch lx = CHR ''/''" "peekChar lx = CHR ''*''" by auto
  then have "remaining (readChar (readChar lx)) < remaining lx"
    by (simp add: remaining_readChar_twice)
  then show ?thesis
    using s False remaining_skipBlock [of "readChar (readChar lx)"]
    by (simp add: skipComment_def)
qed

function skipTrivia :: "Lexer \<Rightarrow> Lexer" where
  "skipTrivia lx =
     (let lx1 = skipWhitespace lx in
      if ch lx1 = CHR ''#'' \<or> (ch lx1 = CHR ''/'' \<and> peekChar lx1 = CHR ''*'')
      then skipTrivia (skipComment lx1) else lx1)"
  by pat_completeness auto
termination
proof (relation "measure remaining")
  show "wf (measure remaining)" by simp
next
  fix lx lx1
  assume "lx1 = skipWhitespace lx"
    and "ch lx1 = CHR ''#'' \<or> (ch lx1 = CHR ''/'' \<and> peekChar lx1 = CHR ''*'')"
  then show "(skipComment lx1, lx) \<in> measure remaining"
    using remaining_skipComment [of lx1] remaining_skipWhitespace [of lx] by simp
qed

declare skipTrivia.simps [simp del]

definition mkToken :: "TokenType \<Rightarrow> string \<Rightarrow> Lexer \<Rightarrow> Token" where
  "mkToken t lit lx = \<lparr>Type = t, Literal = lit, Line = line lx, Column = column lx\<rparr>"

text \<open>
  \<^verbatim>\<open>NextToken\<close>. \<open>lx\<close> below is the lexer after the leading loop, where the token's
  position is taken. The \<^verbatim>\<open>switch\<close> tests the cases in the order of the source: the
  case \<^verbatim>\<open>'/'\<close> comes before \<^verbatim>\<open>default\<close>, so the path branch of \<^verbatim>\<open>default\<close> is tested only
  on a byte that is not \<^verbatim>\<open>'/'\<close>. An operator token is followed by the final \<^verbatim>\<open>readChar\<close>;
  identifiers, numbers and paths return early, without it.
\<close>

definition twoChar ::
  "Lexer \<Rightarrow> char \<Rightarrow> TokenType \<Rightarrow> string \<Rightarrow> TokenType \<Rightarrow> string \<Rightarrow> Token \<times> Lexer"
where
  "twoChar lx second t2 lit2 t1 lit1 =
     (if peekChar lx = second then (mkToken t2 lit2 lx, readChar (readChar lx))
      else (mkToken t1 lit1 lx, readChar lx))"

definition oneChar :: "Lexer \<Rightarrow> TokenType \<Rightarrow> string \<Rightarrow> Token \<times> Lexer" where
  "oneChar lx t lit = (mkToken t lit lx, readChar lx)"

definition NextToken :: "Lexer \<Rightarrow> Token \<times> Lexer" where
  "NextToken lx0 =
     (let lx = skipTrivia lx0; c = ch lx in
      if c = CHR ''='' then twoChar lx (CHR ''='') TOKEN_EQ ''=='' TOKEN_ASSIGN ''=''
      else if c = CHR ''+'' then twoChar lx (CHR ''+'') TOKEN_CONCAT ''++'' TOKEN_PLUS ''+''
      else if c = CHR ''-'' then twoChar lx (CHR ''>'') TOKEN_IMPL ''->'' TOKEN_MINUS ''-''
      else if c = CHR ''*'' then oneChar lx TOKEN_MULTIPLY ''*''
      else if c = CHR ''/'' then oneChar lx TOKEN_DIVIDE ''/''
      else if c = CHR ''!'' then twoChar lx (CHR ''='') TOKEN_NEQ ''!='' TOKEN_NOT ''!''
      else if c = CHR ''<'' then twoChar lx (CHR ''='') TOKEN_LTE ''<='' TOKEN_LT ''<''
      else if c = CHR ''>'' then twoChar lx (CHR ''='') TOKEN_GTE ''>='' TOKEN_GT ''>''
      else if c = CHR ''&'' then twoChar lx (CHR ''&'') TOKEN_AND_OP ''&&'' TOKEN_ILLEGAL ''&''
      else if c = CHR ''|'' then twoChar lx (CHR ''|'') TOKEN_OR_OP ''||'' TOKEN_ILLEGAL ''|''
      else if c = CHR ''?'' then oneChar lx TOKEN_QUESTION ''?''
      else if c = CHR ''.'' then oneChar lx TOKEN_DOT ''.''
      else if c = CHR '';'' then oneChar lx TOKEN_SEMICOLON '';''
      else if c = CHR '':'' then oneChar lx TOKEN_COLON '':''
      else if c = CHR '','' then oneChar lx TOKEN_COMMA '',''
      else if c = CHR ''('' then oneChar lx TOKEN_LPAREN ''(''
      else if c = CHR '')'' then oneChar lx TOKEN_RPAREN '')''
      else if c = CHR ''{'' then oneChar lx TOKEN_LBRACE ''{''
      else if c = CHR ''}'' then oneChar lx TOKEN_RBRACE ''}''
      else if c = CHR ''['' then oneChar lx TOKEN_LBRACKET ''[''
      else if c = CHR '']'' then oneChar lx TOKEN_RBRACKET '']''
      else if c = CHR 0x22 then
        (let (lit, lx1) = readString lx in (mkToken TOKEN_STRING lit lx, readChar lx1))
      else if c = CHR 0x00 then oneChar lx TOKEN_EOF []
      else if isLetter c then
        (let (lit, lx1) = readIdentifier lx in (mkToken (LookupIdent lit) lit lx, lx1))
      else if isDigit c then
        (let ((lit, t), lx1) = readNumber lx in (mkToken t lit lx, lx1))
      else if c = CHR ''/'' \<and> unicodeIsLetter (peekChar lx) then
        (let (lit, lx1) = readPath lx in (mkToken TOKEN_PATH lit lx, lx1))
      else oneChar lx TOKEN_ILLEGAL (stringOfByte c))"

section \<open>The parser (pkg/parser)\<close>

text \<open>
  A \<^verbatim>\<open>ParseError\<close> is a message with the line and the column it was raised at; the
  message is one constructor per \<^verbatim>\<open>Addf\<close> site, with the token types it prints.
\<close>

datatype ParseMessage =
  NoPrefixParseFunction TokenType
  | NoInfixParseFunction TokenType
  | CouldNotParseInteger string
  | CouldNotParseFloat string
  | ExpectedNextToken TokenType TokenType
  | ExpectedRBrace TokenType
  | ExpectedIdentOrString TokenType
  | ExpectedIdentOrStringAfterDot TokenType
  | OrOnlyWithSelection
  | ExpectedIdentInLet TokenType
  | ExpectedInAfterLet TokenType

datatype ParseError = ParseError ParseMessage nat nat

text \<open>
  The \<^verbatim>\<open>Parser\<close> struct. \<open>exhausted\<close> is not a field of the struct: the parser is a
  recursive descent that need not return (the loop of \<^verbatim>\<open>parseAttrSet\<close> spins when
  \<^verbatim>\<open>parseBinding\<close> fails without consuming a token), so the model bounds the depth of the
  descent and the length of every loop, and sets \<open>exhausted\<close> where a bound was hit.
\<close>

record Parser =
  lexer :: Lexer
  cur :: Token
  peek :: Token
  errors :: "ParseError list"
  exhausted :: bool

type_synonym ParseFn = "nat \<Rightarrow> Parser \<Rightarrow> Expr \<times> Parser"

definition advance :: "Parser \<Rightarrow> Parser" where
  "advance p = (let (tok, lx) = NextToken (lexer p) in p\<lparr>cur := peek p, peek := tok, lexer := lx\<rparr>)"

definition zeroToken :: Token where
  "zeroToken = \<lparr>Type = TOKEN_EOF, Literal = [], Line = 0, Column = 0\<rparr>"

definition NewParser :: "Lexer \<Rightarrow> Parser" where
  "NewParser lx =
     advance (advance \<lparr>lexer = lx, cur = zeroToken, peek = zeroToken, errors = [], exhausted = False\<rparr>)"

definition Add :: "ParseMessage \<Rightarrow> nat \<Rightarrow> nat \<Rightarrow> Parser \<Rightarrow> Parser" where
  "Add msg ln col p = p\<lparr>errors := errors p @ [ParseError msg ln col]\<rparr>"

definition errorAtCur :: "ParseMessage \<Rightarrow> Parser \<Rightarrow> Parser" where
  "errorAtCur msg p = Add msg (Line (cur p)) (Column (cur p)) p"

definition outOfFuel :: "Parser \<Rightarrow> Parser" where
  "outOfFuel p = p\<lparr>exhausted := True\<rparr>"

definition curIs :: "Parser \<Rightarrow> TokenType \<Rightarrow> bool" where
  "curIs p t \<longleftrightarrow> Type (cur p) = t"

definition peekIs :: "Parser \<Rightarrow> TokenType \<Rightarrow> bool" where
  "peekIs p t \<longleftrightarrow> Type (peek p) = t"

definition expectPeek :: "Parser \<Rightarrow> TokenType \<Rightarrow> bool \<times> Parser" where
  "expectPeek p t =
     (if peekIs p t then (True, advance p)
      else (False, Add (ExpectedNextToken t (Type (peek p))) (Line (peek p)) (Column (peek p)) p))"

subsection \<open>Precedence (pkg/parser/precedence.go)\<close>

definition precedenceLowest :: nat where "precedenceLowest = 0"
definition precedenceImpl :: nat where "precedenceImpl = 1"
definition precedenceOr :: nat where "precedenceOr = 2"
definition precedenceAnd :: nat where "precedenceAnd = 3"
definition precedenceEquals :: nat where "precedenceEquals = 4"
definition precedenceCompare :: nat where "precedenceCompare = 5"
definition precedenceUpdate :: nat where "precedenceUpdate = 6"
definition precedenceConcat :: nat where "precedenceConcat = 7"
definition precedenceSum :: nat where "precedenceSum = 8"
definition precedenceProduct :: nat where "precedenceProduct = 9"
definition precedenceCall :: nat where "precedenceCall = 10"
definition precedenceSelect :: nat where "precedenceSelect = 11"

definition precedenceMap :: "(TokenType \<times> nat) list" where
  "precedenceMap =
     [(TOKEN_IMPL, precedenceImpl),
      (TOKEN_OR_OP, precedenceOr),
      (TOKEN_AND, precedenceAnd),
      (TOKEN_EQ, precedenceEquals),
      (TOKEN_NEQ, precedenceEquals),
      (TOKEN_LT, precedenceCompare),
      (TOKEN_GT, precedenceCompare),
      (TOKEN_LTE, precedenceCompare),
      (TOKEN_GTE, precedenceCompare),
      (TOKEN_CONCAT, precedenceConcat),
      (TOKEN_PLUS, precedenceSum),
      (TOKEN_MINUS, precedenceSum),
      (TOKEN_MULTIPLY, precedenceProduct),
      (TOKEN_DIVIDE, precedenceProduct),
      (TOKEN_DOT, precedenceSelect)]"

definition peekPrecedence :: "Parser \<Rightarrow> nat" where
  "peekPrecedence p =
     (case map_of precedenceMap (Type (peek p)) of Some prec \<Rightarrow> prec | None \<Rightarrow> precedenceLowest)"

definition curPrecedence :: "Parser \<Rightarrow> nat" where
  "curPrecedence p =
     (case map_of precedenceMap (Type (cur p)) of Some prec \<Rightarrow> prec | None \<Rightarrow> precedenceLowest)"

definition isInfixOperator :: "TokenType \<Rightarrow> bool" where
  "isInfixOperator t \<longleftrightarrow> map_of precedenceMap t \<noteq> None"

definition couldBeArgument :: "Parser \<Rightarrow> bool" where
  "couldBeArgument p \<longleftrightarrow>
     Type (peek p) \<in> set
       [TOKEN_INT, TOKEN_FLOAT, TOKEN_STRING, TOKEN_PATH, TOKEN_IDENT, TOKEN_LBRACE,
        TOKEN_LBRACKET, TOKEN_LPAREN, TOKEN_NOT, TOKEN_MINUS, TOKEN_IF, TOKEN_LET, TOKEN_WITH,
        TOKEN_ASSERT]"

subsection \<open>Literals\<close>

text \<open>
  \<^verbatim>\<open>strconv.ParseInt(s, 10, 64)\<close>: an optional sign, then one or more decimal digits, and
  a value that fits 64 bits in two's complement. \<^verbatim>\<open>strconv.ParseFloat\<close> is a parameter of
  the parser (\<open>pf\<close> below).
\<close>

definition decimalValue :: "string \<Rightarrow> nat" where
  "decimalValue ds = fold (\<lambda>c n. 10 * n + (of_char c - 48)) ds 0"

definition strconvParseInt :: "string \<Rightarrow> int64 option" where
  "strconvParseInt str =
     (case str of
        [] \<Rightarrow> None
      | c # rest \<Rightarrow>
          (let neg = (c = CHR ''-'');
               ds = (if c = CHR ''+'' \<or> c = CHR ''-'' then rest else str)
           in if ds = [] \<or> \<not> list_all isDigit ds then None
              else if neg then
                (if decimalValue ds \<le> 2 ^ 63 then Some (- of_nat (decimalValue ds)) else None)
              else
                (if decimalValue ds < 2 ^ 63 then Some (of_nat (decimalValue ds)) else None)))"

definition parseInt :: "Parser \<Rightarrow> Expr \<times> Parser" where
  "parseInt p =
     (case strconvParseInt (Literal (cur p)) of
        None \<Rightarrow> (NilExpr, errorAtCur (CouldNotParseInteger (Literal (cur p))) p)
      | Some val \<Rightarrow> (IntExpr val, p))"

definition parseFloat :: "(string \<Rightarrow> float64 option) \<Rightarrow> Parser \<Rightarrow> Expr \<times> Parser" where
  "parseFloat pf p =
     (case pf (Literal (cur p)) of
        None \<Rightarrow> (NilExpr, errorAtCur (CouldNotParseFloat (Literal (cur p))) p)
      | Some val \<Rightarrow> (FloatExpr val, p))"

definition parseString :: "Parser \<Rightarrow> Expr \<times> Parser" where
  "parseString p = (StringExpr (Literal (cur p)), p)"

definition parsePath :: "Parser \<Rightarrow> Expr \<times> Parser" where
  "parsePath p = (PathExpr (Literal (cur p)), p)"

subsection \<open>Expressions (pkg/parser/expressions.go)\<close>

text \<open>
  Every method that parses a sub-expression takes \<^verbatim>\<open>parseExpression\<close> as its argument
  \<open>pe\<close>; a method with a loop also takes the bound \<open>n\<close> on its length.
\<close>

definition parseUnary :: "ParseFn \<Rightarrow> UnaryOp \<Rightarrow> Parser \<Rightarrow> Expr \<times> Parser" where
  "parseUnary pe op p =
     (let p1 = advance p;
          (expr, p2) = pe precedenceCall p1
      in (UnaryExpr op expr, p2))"

definition parseBinary :: "ParseFn \<Rightarrow> Expr \<Rightarrow> BinaryOp \<Rightarrow> Parser \<Rightarrow> Expr \<times> Parser" where
  "parseBinary pe left op p =
     (let precedence = curPrecedence p;
          p1 = advance p;
          (right, p2) = pe precedence p1
      in (BinaryExpr left op right, p2))"

definition parseGrouped :: "ParseFn \<Rightarrow> Parser \<Rightarrow> Expr \<times> Parser" where
  "parseGrouped pe p =
     (let p1 = advance p;
          (expr, p2) = pe precedenceLowest p1;
          (ok, p3) = expectPeek p2 TOKEN_RPAREN
      in if \<not> ok then (NilExpr, p3) else (expr, p3))"

definition parseFunction :: "ParseFn \<Rightarrow> Parser \<Rightarrow> Expr \<times> Parser" where
  "parseFunction pe p =
     (let param = Literal (cur p);
          (ok, p1) = expectPeek p TOKEN_COLON
      in if \<not> ok then (NilExpr, p1)
         else (let p2 = advance p1;
                   (body, p3) = pe precedenceLowest p2
               in (FunctionExpr param body, p3)))"

definition parseFunctionApplication :: "ParseFn \<Rightarrow> Expr \<Rightarrow> Parser \<Rightarrow> Expr \<times> Parser" where
  "parseFunctionApplication pe fn p =
     (let (arg, p1) = pe precedenceCall p in (ApplyExpr fn arg, p1))"

primrec listLoop :: "ParseFn \<Rightarrow> nat \<Rightarrow> Expr list \<Rightarrow> Parser \<Rightarrow> Expr list \<times> Parser" where
  "listLoop pe 0 = (\<lambda>elems p. (elems, outOfFuel p))"
| "listLoop pe (Suc k) = (\<lambda>elems p.
     if \<not> peekIs p TOKEN_RBRACKET \<and> \<not> peekIs p TOKEN_EOF then
       (let p1 = advance p in
        if curIs p1 TOKEN_RBRACKET then (elems, p1)
        else
          (let p2 = (if curIs p1 TOKEN_COMMA then advance p1 else p1) in
           if curIs p2 TOKEN_RBRACKET then (elems, p2)
           else
             (let (e, p3) = pe (precedenceCall + 1) p2
              in listLoop pe k (elems @ [e]) p3)))
     else (elems, p))"

definition parseList :: "ParseFn \<Rightarrow> nat \<Rightarrow> Parser \<Rightarrow> Expr \<times> Parser" where
  "parseList pe n p =
     (let p1 = advance p in
      if curIs p1 TOKEN_RBRACKET then (ListExpr [], p1)
      else
        (let (e, p2) = pe (precedenceCall + 1) p1;
             (elems, p3) = listLoop pe n [e] p2;
             (ok, p4) = expectPeek p3 TOKEN_RBRACKET
         in if \<not> ok then (NilExpr, p4) else (ListExpr elems, p4)))"

primrec attrPathLoop :: "nat \<Rightarrow> string list \<Rightarrow> Parser \<Rightarrow> string list option \<times> Parser" where
  "attrPathLoop 0 = (\<lambda>path p. (None, outOfFuel p))"
| "attrPathLoop (Suc k) = (\<lambda>path p.
     if peekIs p TOKEN_DOT then
       (let p1 = advance (advance p) in
        if \<not> curIs p1 TOKEN_IDENT \<and> \<not> curIs p1 TOKEN_STRING
        then (None, errorAtCur (ExpectedIdentOrStringAfterDot (Type (cur p1))) p1)
        else attrPathLoop k (path @ [Literal (cur p1)]) p1)
     else (Some path, p))"

definition parseAttrPath :: "nat \<Rightarrow> Parser \<Rightarrow> string list option \<times> Parser" where
  "parseAttrPath n p =
     (if \<not> curIs p TOKEN_IDENT \<and> \<not> curIs p TOKEN_STRING
      then (None, errorAtCur (ExpectedIdentOrString (Type (cur p))) p)
      else attrPathLoop n [Literal (cur p)] p)"

definition parseBinding :: "ParseFn \<Rightarrow> nat \<Rightarrow> Parser \<Rightarrow> (string list \<times> Expr) option \<times> Parser" where
  "parseBinding pe n p =
     (case parseAttrPath n p of
        (None, p1) \<Rightarrow> (None, p1)
      | (Some path, p1) \<Rightarrow>
          (let (ok, p2) = expectPeek p1 TOKEN_ASSIGN in
           if \<not> ok then (None, p2)
           else
             (let p3 = advance p2;
                  (val, p4) = pe precedenceLowest p3;
                  (ok2, p5) = expectPeek p4 TOKEN_SEMICOLON
              in if \<not> ok2 then (None, p5) else (Some (path, val), advance p5))))"

primrec skipToSemicolon :: "nat \<Rightarrow> Parser \<Rightarrow> Parser" where
  "skipToSemicolon 0 = outOfFuel"
| "skipToSemicolon (Suc k) = (\<lambda>p.
     if \<not> curIs p TOKEN_SEMICOLON \<and> \<not> curIs p TOKEN_EOF then skipToSemicolon k (advance p) else p)"

definition parseInherit :: "nat \<Rightarrow> Parser \<Rightarrow> Parser" where
  "parseInherit n p =
     (let p1 = skipToSemicolon n (advance p)
      in if curIs p1 TOKEN_SEMICOLON then advance p1 else p1)"

primrec attrSetLoop ::
  "ParseFn \<Rightarrow> nat \<Rightarrow> nat \<Rightarrow> (string list \<times> Expr) list \<Rightarrow> Parser
   \<Rightarrow> (string list \<times> Expr) list \<times> Parser"
where
  "attrSetLoop pe n 0 = (\<lambda>binds p. (binds, outOfFuel p))"
| "attrSetLoop pe n (Suc k) = (\<lambda>binds p.
     if \<not> curIs p TOKEN_RBRACE \<and> \<not> curIs p TOKEN_EOF then
       (let (binds1, p1) =
              (if curIs p TOKEN_INHERIT then (binds, parseInherit n p)
               else (case parseBinding pe n p of
                       (None, p1) \<Rightarrow> (binds, p1)
                     | (Some binding, p1) \<Rightarrow> (binds @ [binding], p1)))
        in if curIs p1 TOKEN_RBRACE then (binds1, p1) else attrSetLoop pe n k binds1 p1)
     else (binds, p))"

text \<open>
  \<^verbatim>\<open>parseAttrSet\<close> is entered on the token \<^verbatim>\<open>{\<close> and looks for \<^verbatim>\<open>rec\<close> after it.
\<close>

definition parseAttrSet :: "ParseFn \<Rightarrow> nat \<Rightarrow> Parser \<Rightarrow> Expr \<times> Parser" where
  "parseAttrSet pe n p =
     (let p1 = advance p;
          recursive = curIs p1 TOKEN_REC;
          p2 = (if recursive then advance p1 else p1)
      in if curIs p2 TOKEN_RBRACE then (AttrSetExpr recursive [], p2)
         else
           (let (binds, p3) = attrSetLoop pe n n [] p2 in
            if \<not> curIs p3 TOKEN_RBRACE
            then (NilExpr, errorAtCur (ExpectedRBrace (Type (cur p3))) p3)
            else (AttrSetExpr recursive binds, p3)))"

definition parseSelect :: "nat \<Rightarrow> Expr \<Rightarrow> Parser \<Rightarrow> Expr \<times> Parser" where
  "parseSelect n expr p =
     (case parseAttrPath n (advance p) of
        (None, p1) \<Rightarrow> (NilExpr, p1)
      | (Some path, p1) \<Rightarrow> (SelectExpr expr path NilExpr, p1))"

definition parseHasAttr :: "nat \<Rightarrow> Expr \<Rightarrow> Parser \<Rightarrow> Expr \<times> Parser" where
  "parseHasAttr n expr p =
     (case parseAttrPath n (advance p) of
        (None, p1) \<Rightarrow> (NilExpr, p1)
      | (Some path, p1) \<Rightarrow> (HasAttrExpr expr path, p1))"

definition parseOrDefault :: "ParseFn \<Rightarrow> Expr \<Rightarrow> Parser \<Rightarrow> Expr \<times> Parser" where
  "parseOrDefault pe expr p =
     (case expr of
        SelectExpr e path _ \<Rightarrow>
          (let (dflt, p1) = pe precedenceLowest (advance p) in (SelectExpr e path dflt, p1))
      | _ \<Rightarrow> (NilExpr, errorAtCur OrOnlyWithSelection p))"

subsection \<open>Control flow (pkg/parser/control_flow.go)\<close>

definition parseIf :: "ParseFn \<Rightarrow> Parser \<Rightarrow> Expr \<times> Parser" where
  "parseIf pe p =
     (let (cond, p1) = pe precedenceLowest (advance p);
          (ok, p2) = expectPeek p1 TOKEN_THEN
      in if \<not> ok then (NilExpr, p2)
         else
           (let (thenE, p3) = pe precedenceLowest (advance p2);
                (ok2, p4) = expectPeek p3 TOKEN_ELSE
            in if \<not> ok2 then (NilExpr, p4)
               else
                 (let (elseE, p5) = pe precedenceLowest (advance p4)
                  in (IfExpr cond thenE elseE, p5))))"

primrec letLoop ::
  "ParseFn \<Rightarrow> nat \<Rightarrow> (string \<times> Expr) list \<Rightarrow> Parser \<Rightarrow> (string \<times> Expr) list option \<times> Parser"
where
  "letLoop pe 0 = (\<lambda>binds p. (None, outOfFuel p))"
| "letLoop pe (Suc k) = (\<lambda>binds p.
     if \<not> curIs p TOKEN_IN \<and> \<not> curIs p TOKEN_EOF then
       (if \<not> curIs p TOKEN_IDENT then (None, errorAtCur (ExpectedIdentInLet (Type (cur p))) p)
        else
          (let name = Literal (cur p);
               (ok, p1) = expectPeek p TOKEN_ASSIGN
           in if \<not> ok then (None, p1)
              else
                (let (val, p2) = pe precedenceLowest (advance p1);
                     (ok2, p3) = expectPeek p2 TOKEN_SEMICOLON
                 in if \<not> ok2 then (None, p3)
                    else letLoop pe k (binds @ [(name, val)]) (advance p3))))
     else (Some binds, p))"

definition parseLet :: "ParseFn \<Rightarrow> nat \<Rightarrow> Parser \<Rightarrow> Expr \<times> Parser" where
  "parseLet pe n p =
     (case letLoop pe n [] (advance p) of
        (None, p1) \<Rightarrow> (NilExpr, p1)
      | (Some binds, p1) \<Rightarrow>
          if \<not> curIs p1 TOKEN_IN then (NilExpr, errorAtCur (ExpectedInAfterLet (Type (cur p1))) p1)
          else
            (let (body, p2) = pe precedenceLowest (advance p1)
             in (LetExpr binds body, p2)))"

definition parseWith :: "ParseFn \<Rightarrow> Parser \<Rightarrow> Expr \<times> Parser" where
  "parseWith pe p =
     (let (expr, p1) = pe precedenceLowest (advance p);
          (ok, p2) = expectPeek p1 TOKEN_SEMICOLON
      in if \<not> ok then (NilExpr, p2)
         else
           (let (body, p3) = pe precedenceLowest (advance p2)
            in (WithExpr expr body, p3)))"

definition parseAssert :: "ParseFn \<Rightarrow> Parser \<Rightarrow> Expr \<times> Parser" where
  "parseAssert pe p =
     (let (cond, p1) = pe precedenceLowest (advance p);
          (ok, p2) = expectPeek p1 TOKEN_SEMICOLON
      in if \<not> ok then (NilExpr, p2)
         else
           (let (body, p3) = pe precedenceLowest (advance p2)
            in (AssertExpr cond body, p3)))"

subsection \<open>The Pratt loop (pkg/parser/parser.go)\<close>

definition parseIdentifierOrFunction :: "ParseFn \<Rightarrow> Parser \<Rightarrow> Expr \<times> Parser" where
  "parseIdentifierOrFunction pe p =
     (if Literal (cur p) = ''true'' then (BoolExpr True, p)
      else if Literal (cur p) = ''false'' then (BoolExpr False, p)
      else if Literal (cur p) = ''null'' then (NullExpr, p)
      else if peekIs p TOKEN_COLON then parseFunction pe p
      else (IdentExpr (Literal (cur p)), p))"

definition parsePrefixExpression ::
  "(string \<Rightarrow> float64 option) \<Rightarrow> ParseFn \<Rightarrow> nat \<Rightarrow> Parser \<Rightarrow> Expr \<times> Parser"
where
  "parsePrefixExpression pf pe n p =
     (case Type (cur p) of
        TOKEN_INT \<Rightarrow> parseInt p
      | TOKEN_FLOAT \<Rightarrow> parseFloat pf p
      | TOKEN_STRING \<Rightarrow> parseString p
      | TOKEN_PATH \<Rightarrow> parsePath p
      | TOKEN_IDENT \<Rightarrow> parseIdentifierOrFunction pe p
      | TOKEN_IF \<Rightarrow> parseIf pe p
      | TOKEN_LET \<Rightarrow> parseLet pe n p
      | TOKEN_WITH \<Rightarrow> parseWith pe p
      | TOKEN_ASSERT \<Rightarrow> parseAssert pe p
      | TOKEN_NOT \<Rightarrow> parseUnary pe OpNot p
      | TOKEN_MINUS \<Rightarrow> parseUnary pe OpNeg p
      | TOKEN_LBRACE \<Rightarrow> parseAttrSet pe n p
      | TOKEN_LBRACKET \<Rightarrow> parseList pe n p
      | TOKEN_LPAREN \<Rightarrow> parseGrouped pe p
      | _ \<Rightarrow> (NilExpr, errorAtCur (NoPrefixParseFunction (Type (cur p))) p))"

definition parseInfixExpression :: "ParseFn \<Rightarrow> nat \<Rightarrow> Expr \<Rightarrow> Parser \<Rightarrow> Expr \<times> Parser" where
  "parseInfixExpression pe n left p =
     (case Type (cur p) of
        TOKEN_PLUS \<Rightarrow> parseBinary pe left OpAdd p
      | TOKEN_MINUS \<Rightarrow> parseBinary pe left OpSub p
      | TOKEN_MULTIPLY \<Rightarrow> parseBinary pe left OpMul p
      | TOKEN_DIVIDE \<Rightarrow> parseBinary pe left OpDiv p
      | TOKEN_CONCAT \<Rightarrow> parseBinary pe left OpConcat p
      | TOKEN_EQ \<Rightarrow> parseBinary pe left OpEq p
      | TOKEN_NEQ \<Rightarrow> parseBinary pe left OpNEq p
      | TOKEN_LT \<Rightarrow> parseBinary pe left OpLT p
      | TOKEN_GT \<Rightarrow> parseBinary pe left OpGT p
      | TOKEN_LTE \<Rightarrow> parseBinary pe left OpLTE p
      | TOKEN_GTE \<Rightarrow> parseBinary pe left OpGTE p
      | TOKEN_AND \<Rightarrow> parseBinary pe left OpAnd p
      | TOKEN_OR_OP \<Rightarrow> parseBinary pe left OpOr p
      | TOKEN_IMPL \<Rightarrow> parseBinary pe left OpImpl p
      | TOKEN_DOT \<Rightarrow> parseSelect n left p
      | TOKEN_QUESTION \<Rightarrow> parseHasAttr n left p
      | TOKEN_OR \<Rightarrow> parseOrDefault pe left p
      | _ \<Rightarrow> (NilExpr, errorAtCur (NoInfixParseFunction (Type (cur p))) p))"

text \<open>
  The \<^verbatim>\<open>for\<close> loop of \<^verbatim>\<open>parseExpression\<close>, with the prefix parsed so far. It takes the
  next token as an infix operator when the token has an entry in \<^verbatim>\<open>precedenceMap\<close>, and as
  the start of an argument when it could be one and the level is below application.
\<close>

primrec infixLoop :: "ParseFn \<Rightarrow> nat \<Rightarrow> nat \<Rightarrow> nat \<Rightarrow> Expr \<Rightarrow> Parser \<Rightarrow> Expr \<times> Parser" where
  "infixLoop pe n 0 = (\<lambda>precedence prefix p. (prefix, outOfFuel p))"
| "infixLoop pe n (Suc k) = (\<lambda>precedence prefix p.
     if \<not> peekIs p TOKEN_SEMICOLON \<and> \<not> peekIs p TOKEN_EOF then
       (if precedence \<ge> peekPrecedence p \<and> \<not> couldBeArgument p then (prefix, p)
        else if isInfixOperator (Type (peek p)) then
          (let (e, p1) = parseInfixExpression pe n prefix (advance p)
           in infixLoop pe n k precedence e p1)
        else if couldBeArgument p \<and> precedence < precedenceCall then
          (let (e, p1) = parseFunctionApplication pe prefix (advance p)
           in infixLoop pe n k precedence e p1)
        else (prefix, p))
     else (prefix, p))"

definition parseExpressionBody ::
  "(string \<Rightarrow> float64 option) \<Rightarrow> ParseFn \<Rightarrow> nat \<Rightarrow> nat \<Rightarrow> Parser \<Rightarrow> Expr \<times> Parser"
where
  "parseExpressionBody pf pe n precedence p =
     (let (prefix, p1) = parsePrefixExpression pf pe n p in
      if prefix = NilExpr then (NilExpr, p1)
      else infixLoop pe n n precedence prefix p1)"

primrec parseExpression :: "(string \<Rightarrow> float64 option) \<Rightarrow> nat \<Rightarrow> nat \<Rightarrow> Parser \<Rightarrow> Expr \<times> Parser" where
  "parseExpression pf 0 = (\<lambda>precedence p. (NilExpr, outOfFuel p))"
| "parseExpression pf (Suc n) = parseExpressionBody pf (parseExpression pf n) n"

text \<open>
  \<^verbatim>\<open>Parse\<close>: the tree when no error was recorded, the errors otherwise. A run that
  panicked in the lexer has no result, and a run that hit a bound has none yet.
\<close>

datatype ParseResult = ParseOk Expr | ParseErrors "ParseError list" | ParsePanic | ParseOutOfFuel

definition Parse :: "(string \<Rightarrow> float64 option) \<Rightarrow> nat \<Rightarrow> Parser \<Rightarrow> ParseResult" where
  "Parse pf n p =
     (let (expr, p1) = parseExpression pf n precedenceLowest p in
      if panicked (lexer p1) then ParsePanic
      else if exhausted p1 then ParseOutOfFuel
      else if errors p1 \<noteq> [] then ParseErrors (errors p1)
      else ParseOk expr)"

definition parseSource :: "(string \<Rightarrow> float64 option) \<Rightarrow> nat \<Rightarrow> string \<Rightarrow> ParseResult" where
  "parseSource pf n src = Parse pf n (NewParser (NewLexer src))"

section \<open>Printing values (the \<^verbatim>\<open>String\<close> methods of package value)\<close>

text \<open>
  \<^verbatim>\<open>String\<close> recurses like \<^verbatim>\<open>Equals\<close> and is bounded the same way; \<open>None\<close> is a printer
  that has not returned. A string is printed between double quotes as it is, a path as
  it is, and an attribute set through its sorted keys.
\<close>

definition printAttr :: "(Value \<Rightarrow> string option) \<Rightarrow> (string \<times> Value) list \<Rightarrow> string \<Rightarrow> string option" where
  "printAttr str m k =
     (case map_of m k of
        None \<Rightarrow> None
      | Some v \<Rightarrow> (case str v of None \<Rightarrow> None | Some t \<Rightarrow> Some (k @ '' = '' @ t @ '';'')))"

definition StringStep :: "Evaluator \<Rightarrow> (Value \<Rightarrow> string option) \<Rightarrow> State \<Rightarrow> Value \<Rightarrow> string option" where
  "StringStep E str s v =
     (case v of
        VNull \<Rightarrow> Some ''null''
      | VBool b \<Rightarrow> Some (if b then ''true'' else ''false'')
      | VInt i \<Rightarrow> Some (formatInt i)
      | VFloat f \<Rightarrow> Some (formatFloatG E f)
      | VString x \<Rightarrow> Some ([CHR 0x22] @ x @ [CHR 0x22])
      | VPath x \<Rightarrow> Some x
      | VList elems \<Rightarrow>
          (case those (map str elems) of
             None \<Rightarrow> None
           | Some parts \<Rightarrow> Some (''[ '' @ joinStrings '' '' parts @ '' ]''))
      | VAttrs a \<Rightarrow>
          if attrsLen s a = 0 then Some ''{ }''
          else
            (case those (map (printAttr str (attrsOf s a)) (attrsKeys s a)) of
               None \<Rightarrow> None
             | Some parts \<Rightarrow> Some (''{ '' @ joinStrings '' '' parts @ '' }''))
      | VFunction param _ _ \<Rightarrow> Some (''<LAMBDA '' @ param @ ''>'')
      | VBuiltin name \<Rightarrow> Some (''<BUILTIN '' @ name @ ''>''))"

primrec valueString :: "Evaluator \<Rightarrow> nat \<Rightarrow> State \<Rightarrow> Value \<Rightarrow> string option" where
  "valueString E 0 s = (\<lambda>v. None)"
| "valueString E (Suc n) s = StringStep E (valueString E n s) s"

section \<open>The command line (\<^verbatim>\<open>evalExpression\<close> of package main)\<close>

text \<open>
  Lex, parse, evaluate in a fresh global environment, print. The outcomes are what the
  process does: it prints the value, reports a parse error or an evaluation error, or
  crashes on a panic; \<open>Unfinished\<close> is a run that needs a larger bound.
\<close>

datatype Outcome =
  Printed string
  | ParseErrorReported "ParseError list"
  | EvaluationErrorReported EvalError
  | Crashed
  | Unfinished

definition evalExpression ::
  "Evaluator \<Rightarrow> (string \<Rightarrow> float64 option) \<Rightarrow> nat \<Rightarrow> string \<Rightarrow> Outcome"
where
  "evalExpression E pf n src =
     (case parseSource pf n src of
        ParseOk ast \<Rightarrow>
          (case Eval E n ast of
             Inl OutOfFuel \<Rightarrow> Unfinished
           | Inl IndexOutOfRange \<Rightarrow> Crashed
           | Inl err \<Rightarrow> EvaluationErrorReported err
           | Inr (v, s) \<Rightarrow>
               (case valueString E n s v of
                  None \<Rightarrow> Unfinished
                | Some out \<Rightarrow> Printed out))
      | ParseErrors errs \<Rightarrow> ParseErrorReported errs
      | ParsePanic \<Rightarrow> Crashed
      | ParseOutOfFuel \<Rightarrow> Unfinished)"

section \<open>Division\<close>

lemma mod_zero_below_double: "(x::nat) mod n = 0 \<Longrightarrow> x < 2 * n \<Longrightarrow> x = 0 \<or> x = n"
  by (auto elim!: dvdE simp: mod_eq_0_iff_dvd)

lemma sign_bit_unat: "(r::64 word) = 0x8000000000000000 \<longleftrightarrow> unat r = 2 ^ 63"
proof -
  have "unat (0x8000000000000000 :: 64 word) = 2 ^ 63" by simp
  then show ?thesis by (metis word_unat_eq_iff)
qed

lemma low63_mask: "(0x7FFFFFFFFFFFFFFF::64 word) = mask 63"
  by (simp add: mask_eq_exp_minus_1)

lemma low63_take_bit: "r AND 0x7FFFFFFFFFFFFFFF = take_bit 63 (r::64 word)"
  by (simp add: low63_mask flip: take_bit_eq_mask)

lemma take_bit63_zero: "take_bit 63 (r::64 word) = 0 \<longleftrightarrow> unat r mod 2 ^ 63 = 0"
  by (metis unat_eq_0 unsigned_take_bit_eq take_bit_eq_mod)

lemma unat64_bound: "unat (r::64 word) < 2 * 2 ^ 63"
  using unsigned_less [of r, where 'a=nat] by simp

lemma floatIsZero_iff: "floatIsZero r \<longleftrightarrow> r = 0 \<or> r = 0x8000000000000000"
proof
  assume "floatIsZero r"
  then have "unat r mod 2 ^ 63 = 0"
    by (simp only: floatIsZero_def low63_take_bit take_bit63_zero)
  then have "unat r = 0 \<or> unat r = 2 ^ 63"
    by (rule mod_zero_below_double) (rule unat64_bound)
  then show "r = 0 \<or> r = 0x8000000000000000"
    by (simp only: sign_bit_unat unat_eq_0)
next
  assume "r = 0 \<or> r = 0x8000000000000000"
  then show "floatIsZero r" by (auto simp: floatIsZero_def)
qed

lemma floatEq_zero_iff: "floatEq r 0 \<longleftrightarrow> r = 0 \<or> r = 0x8000000000000000"
proof -
  have nan: "r = 0 \<or> r = 0x8000000000000000 \<Longrightarrow> \<not> floatIsNaN r"
    by (auto simp: floatIsNaN_def)
  have z0: "floatIsZero 0" by (simp add: floatIsZero_def)
  have n0: "\<not> floatIsNaN 0" by (simp add: floatIsNaN_def)
  show ?thesis
    unfolding floatEq_def using nan z0 n0 floatIsZero_iff [of r] by blast
qed

text \<open>
  C7. For numeric operands (\<^verbatim>\<open>Int\<close> or \<^verbatim>\<open>Float\<close> on both sides) \<^verbatim>\<open>evalDiv\<close> has exactly two
  outcomes: the division-by-zero error, if and only if the divisor is zero, and a
  \<^verbatim>\<open>Float\<close> value otherwise.
\<close>

theorem evalDiv_numeric:
  assumes "isNumeric left" and "isNumeric right"
  shows "(evalDiv E left right = Inl DivisionByZero \<longleftrightarrow> divisorIsZero right)
       \<and> (\<not> divisorIsZero right \<longrightarrow> (\<exists>f. evalDiv E left right = Inr (VFloat f)))
       \<and> (evalDiv E left right = Inl DivisionByZero \<or> (\<exists>f. evalDiv E left right = Inr (VFloat f)))"
proof (cases right)
  case (VInt r)
  then show ?thesis using assms(1)
    by (cases left) (auto simp: evalDiv_def signed_eq_0_iff)
next
  case (VFloat r)
  then show ?thesis using assms(1)
    by (cases left) (auto simp: evalDiv_def floatEq_zero_iff)
qed (use assms(2) in auto)

theorem evalDiv_numeric_witness:
  "\<forall>E. evalDiv E (VInt 6) (VInt 3) = Inr (VFloat (floatDiv E (floatOfInt E 6) (floatOfInt E 3)))
   \<and> evalDiv E (VFloat 0x3FF0000000000000) (VFloat 0x8000000000000000) = Inl DivisionByZero
   \<and> evalDiv E (VInt 1) (VInt 0) = Inl DivisionByZero"
proof
  fix E
  show "evalDiv E (VInt 6) (VInt 3) = Inr (VFloat (floatDiv E (floatOfInt E 6) (floatOfInt E 3)))
   \<and> evalDiv E (VFloat 0x3FF0000000000000) (VFloat 0x8000000000000000) = Inl DivisionByZero
   \<and> evalDiv E (VInt 1) (VInt 0) = Inl DivisionByZero"
    using evalDiv_numeric [of "VInt 6" "VInt 3" E]
      evalDiv_numeric [of "VFloat 0x3FF0000000000000" "VFloat 0x8000000000000000" E]
      evalDiv_numeric [of "VInt 1" "VInt 0" E]
    by (auto simp: evalDiv_def)
qed

end
